theory Spec2Isabelle
  imports Main
begin

section \<open>Python values\<close>

text \<open>
  A Python \<open>str\<close> is a sequence of Unicode code points, and slicing (\<open>s[:50]\<close>) counts
  code points. The status strings of \<open>main.py\<close> contain characters outside ASCII, so a
  string is modelled as the list of its code points; \<open>ascii\<close> embeds an ASCII literal.
\<close>

type_synonym pystr = "nat list"

definition ascii :: "string \<Rightarrow> pystr" where
  "ascii s = map of_char s"

text \<open>The characters U+2705, U+274C and U+26A0 U+FE0F used in the status strings.\<close>

definition check_mark :: pystr where
  "check_mark = [0x2705]"

definition cross_mark :: pystr where
  "cross_mark = [0x274C]"

definition warning_sign :: pystr where
  "warning_sign = [0x26A0, 0xFE0F]"

definition newline :: pystr where
  "newline = [0x0A]"

text \<open>
  Truthiness of an \<open>Optional[str]\<close>: \<open>None\<close> and the empty string are falsy. \<open>py_or x d\<close>
  is the expression \<open>x or d\<close>.
\<close>

definition truthy :: "pystr option \<Rightarrow> bool" where
  "truthy x = (case x of None \<Rightarrow> False | Some s \<Rightarrow> s \<noteq> [])"

definition py_or :: "pystr option \<Rightarrow> pystr \<Rightarrow> pystr" where
  "py_or x d = (case x of None \<Rightarrow> d | Some s \<Rightarrow> if s = [] then d else s)"

text \<open>
  The exceptions the collaborators raise are instances of \<open>Exception\<close>, the class the
  handlers of \<open>main.py\<close> catch. \<open>ImportError\<close> stands for that class and its subclasses,
  which \<open>test_database\<close> handles apart; the payload is \<open>str(e)\<close>. Process signals deriving
  from \<open>BaseException\<close> only (\<open>KeyboardInterrupt\<close>, \<open>SystemExit\<close>) are outside the model.
\<close>

datatype exn = ImportError pystr | Exception pystr

fun str_exn :: "exn \<Rightarrow> pystr" where
  "str_exn (ImportError m) = m"
| "str_exn (Exception m) = m"

text \<open>Objects handed out by the libraries (credentials, clients, worksheets) are opaque handles.\<close>

type_synonym obj = nat

section \<open>Data model\<close>

text \<open>
  Modelled from the spec: the \<open>Appointment\<close> schema (\<open>schemas.py\<close> is not among the
  sources). Four required strings and two optional ones, section 3 of the specification.
\<close>

record Appointment =
  name :: pystr
  email :: pystr
  phone :: pystr
  department :: pystr
  date :: "pystr option"
  notes' :: "pystr option"

text \<open>
  The process environment and the collaborators outside \<open>main.py\<close>. Each field gives the
  answer the collaborator returns in the run at hand: \<open>Inl e\<close> when the call raises \<open>e\<close>,
  for a call without a result \<open>Some e\<close> when it raises.
  \<open>store_insert\<close> is the document store behind \<open>database.create_document\<close>: given the
  collection and the document it answers with the identifier it generated, as its first
  character and the rest. \<open>database_db\<close> is the outcome of \<open>from database import db\<close>
  (the value \<open>None\<close> of \<open>db\<close> is \<open>Inr None\<close>), \<open>db_name\<close> the attribute \<open>db.name\<close>
  when \<open>hasattr(db, 'name')\<close> holds. \<open>stdout_print\<close> is \<open>print\<close> on the standard output:
  it raises when the stream is closed or cannot encode the text.
\<close>

record world =
  environ :: "string \<Rightarrow> pystr option"
  store_insert :: "pystr \<Rightarrow> pystr list \<Rightarrow> exn + nat \<times> pystr"
  database_db :: "exn + obj option"
  db_name :: "obj \<Rightarrow> pystr option"
  db_list_collection_names :: "obj \<Rightarrow> exn + pystr list"
  import_module :: "string \<Rightarrow> exn option"
  json_loads :: "pystr \<Rightarrow> exn + obj"
  from_service_account_info :: "obj \<Rightarrow> pystr list \<Rightarrow> exn + obj"
  authorize :: "obj \<Rightarrow> exn + obj"
  gc_open :: "obj \<Rightarrow> pystr \<Rightarrow> exn + obj"
  sh_worksheet :: "obj \<Rightarrow> pystr \<Rightarrow> exn + obj"
  sh_sheet1 :: "obj \<Rightarrow> exn + obj"
  ws_append_row :: "obj \<Rightarrow> pystr list \<Rightarrow> exn option"
  ws_title :: "obj \<Rightarrow> exn + pystr"
  twilio_Client :: "pystr \<Rightarrow> pystr \<Rightarrow> exn + obj"
  messages_create :: "obj \<Rightarrow> pystr \<Rightarrow> pystr \<Rightarrow> pystr \<Rightarrow> exn + obj"
  msg_sid :: "obj \<Rightarrow> exn + pystr"
  stdout_print :: "pystr \<Rightarrow> exn option"

text \<open>
  Modelled from the spec: \<open>database.create_document\<close> (\<open>database.py\<close> is not among the
  sources). Section 6: one document per appointment, in the collection named for the
  entity kind, containing the six fields, and an opaque generated identifier is returned.
  Section 3: persistence treats an absent optional field as the empty string. Section 8:
  the identifier of a successful insert is non-empty. Section 4.3: the insert returns the
  identifier or fails.
\<close>

definition document :: "Appointment \<Rightarrow> pystr list" where
  "document data =
     [name data, email data, phone data, department data,
      case date data of None \<Rightarrow> [] | Some d \<Rightarrow> d,
      case notes' data of None \<Rightarrow> [] | Some n \<Rightarrow> n]"

definition create_document :: "world \<Rightarrow> pystr \<Rightarrow> Appointment \<Rightarrow> exn + pystr" where
  "create_document w collection_name data =
     (case store_insert w collection_name (document data) of
        Inl e \<Rightarrow> Inl e
      | Inr (c, cs) \<Rightarrow> Inr (c # cs))"

text \<open>
  What a run does to the outside is recorded as a trace: one event per call of a function
  of \<open>main.py\<close> that the claims count (\<open>EvCall\<close>) and one per call into a collaborator,
  written when the call is made, whether it then succeeds or raises.
\<close>

datatype event =
    EvCall string
  | EvCreateDocument pystr Appointment
  | EvImport string
  | EvCredentials obj "pystr list"
  | EvAuthorize obj
  | EvOpen obj pystr
  | EvWorksheet obj pystr
  | EvSheet1 obj
  | EvAppendRow obj "pystr list"
  | EvClient pystr pystr
  | EvMessagesCreate obj pystr pystr pystr
  | EvListCollectionNames obj
  | EvPrint pystr

type_synonym trace = "event list"

section \<open>Statements with effects and exceptions\<close>

text \<open>
  A statement takes the trace so far and gives back either the exception it raises or its
  value, with the trace extended.
\<close>

type_synonym 'a io = "trace \<Rightarrow> (exn + 'a) \<times> trace"

definition ret :: "'a \<Rightarrow> 'a io" where
  "ret v = (\<lambda>t. (Inr v, t))"

definition bind_io :: "'a io \<Rightarrow> ('a \<Rightarrow> 'b io) \<Rightarrow> 'b io" where
  "bind_io m f = (\<lambda>t. case m t of (Inl e, t') \<Rightarrow> (Inl e, t') | (Inr v, t') \<Rightarrow> f v t')"

definition emit :: "event \<Rightarrow> unit io" where
  "emit ev = (\<lambda>t. (Inr (), t @ [ev]))"

definition ext :: "event \<Rightarrow> exn + 'a \<Rightarrow> 'a io" where
  "ext ev r = (\<lambda>t. (r, t @ [ev]))"

definition ext_unit :: "event \<Rightarrow> exn option \<Rightarrow> unit io" where
  "ext_unit ev r = (\<lambda>t. (case r of None \<Rightarrow> Inr () | Some e \<Rightarrow> Inl e, t @ [ev]))"

definition pure_call :: "exn + 'a \<Rightarrow> 'a io" where
  "pure_call r = (\<lambda>t. (r, t))"

text \<open>\<open>try: m except Exception as e: h e\<close>\<close>

definition try_except :: "'a io \<Rightarrow> (exn \<Rightarrow> 'a io) \<Rightarrow> 'a io" where
  "try_except m h = (\<lambda>t. case m t of (Inl e, t') \<Rightarrow> h e t' | (Inr v, t') \<Rightarrow> (Inr v, t'))"

text \<open>\<open>os.getenv(key)\<close> and \<open>os.getenv(key, default)\<close>\<close>

definition getenv :: "world \<Rightarrow> string \<Rightarrow> pystr option" where
  "getenv w key = environ w key"

definition getenv_default :: "world \<Rightarrow> string \<Rightarrow> pystr \<Rightarrow> pystr" where
  "getenv_default w key d = (case environ w key of None \<Rightarrow> d | Some v \<Rightarrow> v)"

section \<open>The optional integrations\<close>

definition scopes :: "pystr list" where
  "scopes = [ascii ''https://www.googleapis.com/auth/spreadsheets'',
             ascii ''https://www.googleapis.com/auth/drive'']"

text \<open>The list passed to \<open>ws.append_row\<close>.\<close>

definition row :: "Appointment \<Rightarrow> pystr list" where
  "row appointment =
     [name appointment, email appointment, phone appointment, department appointment,
      py_or (date appointment) [], py_or (notes' appointment) []]"

definition append_to_google_sheets :: "world \<Rightarrow> Appointment \<Rightarrow> pystr option io" where
  "append_to_google_sheets w appointment =
     bind_io (emit (EvCall ''_append_to_google_sheets'')) (\<lambda>_.
     let service_account_json = getenv w ''GOOGLE_SERVICE_ACCOUNT_JSON'';
         spreadsheet_name = getenv w ''GOOGLE_SHEETS_SPREADSHEET'';
         worksheet_name = getenv_default w ''GOOGLE_SHEETS_WORKSHEET'' (ascii ''Sheet1'')
     in
     if \<not> truthy service_account_json \<or> \<not> truthy spreadsheet_name then ret None
     else
       try_except
         (bind_io (ext_unit (EvImport ''gspread'') (import_module w ''gspread'')) (\<lambda>_.
          bind_io (ext_unit (EvImport ''google.oauth2.service_account'')
                     (import_module w ''google.oauth2.service_account'')) (\<lambda>_.
          bind_io (pure_call (json_loads w (the service_account_json))) (\<lambda>data.
          bind_io (ext (EvCredentials data scopes)
                     (from_service_account_info w data scopes)) (\<lambda>creds.
          bind_io (ext (EvAuthorize creds) (authorize w creds)) (\<lambda>gc.
          bind_io (ext (EvOpen gc (the spreadsheet_name))
                     (gc_open w gc (the spreadsheet_name))) (\<lambda>sh.
          bind_io (try_except
                     (ext (EvWorksheet sh worksheet_name) (sh_worksheet w sh worksheet_name))
                     (\<lambda>_. ext (EvSheet1 sh) (sh_sheet1 w sh))) (\<lambda>ws.
          bind_io (ext_unit (EvAppendRow ws (row appointment))
                     (ws_append_row w ws (row appointment))) (\<lambda>_.
          bind_io (pure_call (ws_title w ws)) (\<lambda>title.
          ret (Some title)))))))))))
         (\<lambda>e. bind_io
                 (let line = ascii ''Google Sheets integration error: '' @ str_exn e
                  in ext_unit (EvPrint line) (stdout_print w line))
                 (\<lambda>_. ret None)))"

text \<open>The message text, the local \<open>body\<close> of \<open>_send_whatsapp_notification\<close>.\<close>

definition body :: "Appointment \<Rightarrow> pystr" where
  "body appointment =
     ascii ''New Appointment Request'' @ newline @
     ascii ''Name: '' @ name appointment @ newline @
     ascii ''Email: '' @ email appointment @ newline @
     ascii ''Phone: '' @ phone appointment @ newline @
     ascii ''Department: '' @ department appointment @ newline @
     ascii ''Date: '' @ py_or (date appointment) (ascii ''-'') @ newline @
     ascii ''Notes: '' @ py_or (notes' appointment) (ascii ''-'')"

definition send_whatsapp_notification :: "world \<Rightarrow> Appointment \<Rightarrow> pystr option io" where
  "send_whatsapp_notification w appointment =
     bind_io (emit (EvCall ''_send_whatsapp_notification'')) (\<lambda>_.
     let account_sid = getenv w ''TWILIO_ACCOUNT_SID'';
         auth_token = getenv w ''TWILIO_AUTH_TOKEN'';
         from_whatsapp = getenv w ''TWILIO_WHATSAPP_FROM'';
         to_whatsapp = getenv w ''WHATSAPP_TO''
     in
     if \<not> list_all truthy [account_sid, auth_token, from_whatsapp, to_whatsapp] then ret None
     else
       try_except
         (bind_io (ext_unit (EvImport ''twilio.rest'') (import_module w ''twilio.rest'')) (\<lambda>_.
          bind_io (ext (EvClient (the account_sid) (the auth_token))
                     (twilio_Client w (the account_sid) (the auth_token))) (\<lambda>client.
          bind_io (ext (EvMessagesCreate client (body appointment)
                          (the from_whatsapp) (the to_whatsapp))
                     (messages_create w client (body appointment)
                          (the from_whatsapp) (the to_whatsapp))) (\<lambda>msg.
          bind_io (pure_call (msg_sid w msg)) (\<lambda>sid.
          ret (Some sid))))))
         (\<lambda>e. bind_io
                 (let line = ascii ''WhatsApp integration error: '' @ str_exn e
                  in ext_unit (EvPrint line) (stdout_print w line))
                 (\<lambda>_. ret None)))"

section \<open>POST /appointments\<close>

record appointment_response =
  ok :: bool
  id' :: pystr
  google_sheets :: bool
  whatsapp :: bool

text \<open>
  How the handler ends when it does not return: the \<open>HTTPException\<close> it raises itself
  (status code and detail), or an exception of a callee that it lets through.
\<close>

datatype raised = HTTPException nat pystr | Uncaught exn

definition create_appointment ::
    "world \<Rightarrow> Appointment \<Rightarrow> trace \<Rightarrow> (raised + appointment_response) \<times> trace" where
  "create_appointment w appointment t =
     (case ext (EvCreateDocument (ascii ''appointment'') appointment)
             (create_document w (ascii ''appointment'') appointment) t of
        (Inl e, t1) \<Rightarrow>
          (Inl (HTTPException 500 (ascii ''Database error: '' @ str_exn e)), t1)
      | (Inr inserted_id, t1) \<Rightarrow>
          (case append_to_google_sheets w appointment t1 of
             (Inl e, t2) \<Rightarrow> (Inl (Uncaught e), t2)
           | (Inr sheet_ws, t2) \<Rightarrow>
               (case send_whatsapp_notification w appointment t2 of
                  (Inl e, t3) \<Rightarrow> (Inl (Uncaught e), t3)
                | (Inr whatsapp_sid, t3) \<Rightarrow>
                    (Inr \<lparr>ok = True, id' = inserted_id,
                          google_sheets = truthy sheet_ws,
                          whatsapp = truthy whatsapp_sid\<rparr>, t3))))"

section \<open>GET /test\<close>

record diagnostics =
  backend :: pystr
  database :: pystr
  database_url :: "pystr option"
  database_name :: "pystr option"
  connection_status :: pystr
  collections :: "pystr list"

text \<open>
  The body of the outer \<open>try\<close> of \<open>test_database\<close>. The assignments to \<open>response\<close> made
  before an exception stay, so the body gives back the dictionary as it stands together
  with the exception that left it, if any. The inner \<open>try\<close> catches every exception of
  \<open>db.list_collection_names()\<close>, so only the import can leave the body.
\<close>

definition test_database_try ::
    "world \<Rightarrow> diagnostics \<Rightarrow> trace \<Rightarrow> exn option \<times> diagnostics \<times> trace" where
  "test_database_try w response t =
     (case database_db w of
        Inl e \<Rightarrow> (Some e, response, t @ [EvImport ''database''])
      | Inr None \<Rightarrow>
          (None,
           response\<lparr>database := warning_sign @ ascii ''  Available but not initialized''\<rparr>,
           t @ [EvImport ''database''])
      | Inr (Some db) \<Rightarrow>
          (let response = response
                 \<lparr>database := check_mark @ ascii '' Available'',
                  database_url := Some (check_mark @ ascii '' Configured''),
                  database_name :=
                    Some (case db_name w db of
                            Some n \<Rightarrow> n
                          | None \<Rightarrow> check_mark @ ascii '' Connected''),
                  connection_status := ascii ''Connected''\<rparr>;
               t = t @ [EvImport ''database'', EvListCollectionNames db]
           in case db_list_collection_names w db of
                Inr collections' \<Rightarrow>
                  (None,
                   response\<lparr>collections := take 10 collections',
                            database := check_mark @ ascii '' Connected & Working''\<rparr>,
                   t)
              | Inl e \<Rightarrow>
                  (None,
                   response\<lparr>database := warning_sign @ ascii ''  Connected but Error: ''
                                          @ take 50 (str_exn e)\<rparr>,
                   t)))"

definition test_database :: "world \<Rightarrow> trace \<Rightarrow> (exn + diagnostics) \<times> trace" where
  "test_database w t =
     (let response = \<lparr>backend = check_mark @ ascii '' Running'',
                      database = cross_mark @ ascii '' Not Available'',
                      database_url = None,
                      database_name = None,
                      connection_status = ascii ''Not Connected'',
                      collections = []\<rparr>;
          (raised, response, t) = test_database_try w response t;
          response =
            (case raised of
               None \<Rightarrow> response
             | Some (ImportError m) \<Rightarrow>
                 response\<lparr>database := cross_mark
                   @ ascii '' Database module not found (run enable-database first)''\<rparr>
             | Some (Exception m) \<Rightarrow>
                 response\<lparr>database := cross_mark @ ascii '' Error: ''
                                        @ take 50 (str_exn (Exception m))\<rparr>);
          response = response\<lparr>database_url :=
            Some (if truthy (getenv w ''DATABASE_URL'') then check_mark @ ascii '' Set''
                  else cross_mark @ ascii '' Not Set'')\<rparr>;
          response = response\<lparr>database_name :=
            Some (if truthy (getenv w ''DATABASE_NAME'') then check_mark @ ascii '' Set''
                  else cross_mark @ ascii '' Not Set'')\<rparr>
      in (Inr response, t))"

section \<open>Observations on traces\<close>

text \<open>Calls that reach the spreadsheet service, and calls that reach the messaging provider.\<close>

fun sheets_event :: "event \<Rightarrow> bool" where
  "sheets_event (EvImport m) = (m = ''gspread'' \<or> m = ''google.oauth2.service_account'')"
| "sheets_event (EvCredentials _ _) = True"
| "sheets_event (EvAuthorize _) = True"
| "sheets_event (EvOpen _ _) = True"
| "sheets_event (EvWorksheet _ _) = True"
| "sheets_event (EvSheet1 _) = True"
| "sheets_event (EvAppendRow _ _) = True"
| "sheets_event _ = False"

fun whatsapp_event :: "event \<Rightarrow> bool" where
  "whatsapp_event (EvImport m) = (m = ''twilio.rest'')"
| "whatsapp_event (EvClient _ _) = True"
| "whatsapp_event (EvMessagesCreate _ _ _ _) = True"
| "whatsapp_event _ = False"

fun is_append_row :: "event \<Rightarrow> bool" where
  "is_append_row (EvAppendRow _ _) = True"
| "is_append_row _ = False"

fun is_print :: "event \<Rightarrow> bool" where
  "is_print (EvPrint _) = True"
| "is_print _ = False"

text \<open>
  \<open>carries a ev\<close>: what the call \<open>ev\<close> hands to a collaborator is formatted from the
  request \<open>a\<close>, the row by \<open>row\<close> and the message text by \<open>body\<close>.
\<close>

fun carries :: "Appointment \<Rightarrow> event \<Rightarrow> bool" where
  "carries a (EvAppendRow _ r) = (r = row a)"
| "carries a (EvMessagesCreate _ b _ _) = (b = body a)"
| "carries a _ = True"

text \<open>Calls that write to a system outside the process.\<close>

fun mutating :: "event \<Rightarrow> bool" where
  "mutating (EvCreateDocument _ _) = True"
| "mutating (EvAppendRow _ _) = True"
| "mutating (EvMessagesCreate _ _ _ _) = True"
| "mutating _ = False"

section \<open>Properties of statements\<close>

text \<open>
  \<open>runs P m\<close>: the statement \<open>m\<close> has one outcome and one list of events, whatever the
  trace it starts from; it appends these events, all of which satisfy \<open>P\<close>, and touches
  nothing else. \<open>returns m\<close>: the statement never ends with an exception.
\<close>

definition runs :: "(event \<Rightarrow> bool) \<Rightarrow> 'a io \<Rightarrow> bool" where
  "runs P m = (\<exists>r evs. list_all P evs \<and> (\<forall>t. m t = (r, t @ evs)))"

definition returns :: "'a io \<Rightarrow> bool" where
  "returns m = (\<forall>t. \<exists>v. fst (m t) = Inr v)"



section \<open>Sample runs\<close>

text \<open>The request of the scenarios of section 8: date and notes omitted.\<close>

definition appt_A :: Appointment where
  "appt_A = \<lparr>name = ascii ''A'', email = ascii ''a@x.com'', phone = ascii ''1'',
             department = ascii ''D'', date = None, notes' = None\<rparr>"

text \<open>No channel configured, every collaborator answering.\<close>

definition world_none :: world where
  "world_none =
     \<lparr>environ = (\<lambda>_. None),
      store_insert = (\<lambda>_ _. Inr (54, ascii ''5f0c0ffee'')),
      database_db = Inr (Some 10),
      db_name = (\<lambda>_. Some (ascii ''clinic'')),
      db_list_collection_names = (\<lambda>_. Inr [ascii ''appointment'']),
      import_module = (\<lambda>_. None),
      json_loads = (\<lambda>_. Inr 1),
      from_service_account_info = (\<lambda>_ _. Inr 2),
      authorize = (\<lambda>_. Inr 3),
      gc_open = (\<lambda>_ _. Inr 4),
      sh_worksheet = (\<lambda>_ _. Inr 5),
      sh_sheet1 = (\<lambda>_. Inr 6),
      ws_append_row = (\<lambda>_ _. None),
      ws_title = (\<lambda>ws. Inr (if ws = 5 then ascii ''Sheet1'' else ascii ''First'')),
      twilio_Client = (\<lambda>_ _. Inr 7),
      messages_create = (\<lambda>_ _ _ _. Inr 8),
      msg_sid = (\<lambda>_. Inr (ascii ''SM1'')),
      stdout_print = (\<lambda>_. None)\<rparr>"

definition env_sheets :: "string \<Rightarrow> pystr option" where
  "env_sheets = map_of
     [(''GOOGLE_SERVICE_ACCOUNT_JSON'', ascii ''{}''),
      (''GOOGLE_SHEETS_SPREADSHEET'', ascii ''Clinic'')]"

definition env_twilio :: "string \<Rightarrow> pystr option" where
  "env_twilio = map_of
     [(''TWILIO_ACCOUNT_SID'', ascii ''AC1''),
      (''TWILIO_AUTH_TOKEN'', ascii ''tok''),
      (''TWILIO_WHATSAPP_FROM'', ascii ''whatsapp:+1''),
      (''WHATSAPP_TO'', ascii ''whatsapp:+2'')]"

definition world_sheets :: world where
  "world_sheets = world_none\<lparr>environ := env_sheets\<rparr>"

definition world_twilio :: world where
  "world_twilio = world_none\<lparr>environ := env_twilio\<rparr>"

definition world_both :: world where
  "world_both = world_none\<lparr>environ := env_sheets ++ env_twilio\<rparr>"

text \<open>Both channels configured, the document store refusing the insert.\<close>

definition world_db_down :: world where
  "world_db_down =
     world_both\<lparr>store_insert := (\<lambda>_ _. Inl (Exception (ascii ''connection refused'')))\<rparr>"

text \<open>Both channels configured and delivering; the worksheet reports an empty title.\<close>

definition world_empty_title :: world where
  "world_empty_title = world_both\<lparr>ws_title := (\<lambda>_. Inr [])\<rparr>"

text \<open>Both channels configured and delivering; the provider reports an empty message SID.\<close>

definition world_empty_sid :: world where
  "world_empty_sid = world_both\<lparr>msg_sid := (\<lambda>_. Inr [])\<rparr>"

text \<open>Both channels configured; opening the spreadsheet fails.\<close>

definition world_sheets_down :: world where
  "world_sheets_down = world_both\<lparr>gc_open := (\<lambda>_ _. Inl (Exception (ascii ''timeout'')))\<rparr>"

text \<open>
  Both channels configured; opening the spreadsheet fails and the standard output is a
  closed pipe, so that \<open>print\<close> raises.
\<close>

definition world_print_fails :: world where
  "world_print_fails =
     world_sheets_down
       \<lparr>stdout_print := (\<lambda>_. Some (Exception (ascii ''[Errno 32] Broken pipe'')))\<rparr>"

text \<open>
  Both channels configured; the provider rejects the message and \<open>print\<close> raises.
\<close>

definition world_message_print_fails :: world where
  "world_message_print_fails =
     world_both
       \<lparr>messages_create := (\<lambda>_ _ _ _. Inl (Exception (ascii ''HTTP 400''))),
        stdout_print := (\<lambda>_. Some (Exception (ascii ''[Errno 32] Broken pipe'')))\<rparr>"

text \<open>The spreadsheet channel configured; the named worksheet does not exist.\<close>

definition world_no_named_ws :: world where
  "world_no_named_ws =
     world_sheets\<lparr>sh_worksheet := (\<lambda>_ _. Inl (Exception (ascii ''WorksheetNotFound'')))\<rparr>"

text \<open>
  The database is reachable and configured, listing its collections fails with a message of
  sixty characters.
\<close>

definition world_db_err :: world where
  "world_db_err =
     world_none\<lparr>environ := map_of [(''DATABASE_URL'', ascii ''mongodb://u:secret@h/db'')],
                db_list_collection_names := (\<lambda>_. Inl (Exception (replicate 60 120)))\<rparr>"

section \<open>Configuration as the specification words it\<close>

text \<open>
  These two predicates follow the words of section 4.1 of the specification, not the code:
  a channel is configured iff every one of its required values is present and non-empty.
  The spreadsheet channel requires the credential blob and the spreadsheet identifier,
  the messaging channel its four values.
\<close>

definition present_nonempty :: "world \<Rightarrow> string \<Rightarrow> bool" where
  "present_nonempty w key = (case environ w key of None \<Rightarrow> False | Some v \<Rightarrow> v \<noteq> [])"

definition spec_spreadsheet_configured :: "world \<Rightarrow> bool" where
  "spec_spreadsheet_configured w =
     list_all (present_nonempty w)
       [''GOOGLE_SERVICE_ACCOUNT_JSON'', ''GOOGLE_SHEETS_SPREADSHEET'']"

definition spec_messaging_configured :: "world \<Rightarrow> bool" where
  "spec_messaging_configured w =
     list_all (present_nonempty w)
       [''TWILIO_ACCOUNT_SID'', ''TWILIO_AUTH_TOKEN'', ''TWILIO_WHATSAPP_FROM'', ''WHATSAPP_TO'']"

section \<open>Basic facts\<close>

lemmas io_defs = ret_def bind_io_def emit_def ext_def ext_unit_def pure_call_def try_except_def

lemmas adapter_defs = append_to_google_sheets_def send_whatsapp_notification_def io_defs
  Let_def getenv_def getenv_default_def

lemmas world_defs = world_both_def world_sheets_def world_twilio_def world_none_def
  env_sheets_def env_twilio_def create_document_def

lemma ascii_eq_Nil [simp]: "(ascii s = []) = (s = [])"
  by (simp add: ascii_def)

lemma ascii_append: "ascii s @ ascii u = ascii (s @ u)"
  by (simp add: ascii_def)

lemma id_of_sample_store [simp]: "54 # ascii ''5f0c0ffee'' = ascii ''65f0c0ffee''"
  by (simp add: ascii_def)

lemma truthy_Some [simp]: "truthy (Some s) = (s \<noteq> [])"
  by (simp add: truthy_def)

lemma truthy_None [simp]: "truthy None = False"
  by (simp add: truthy_def)

lemma truthy_iff: "truthy x = (\<exists>tok. x = Some tok \<and> tok \<noteq> [])"
  by (cases x) simp_all

subsection \<open>Statements append to the trace\<close>

lemma runs_ret: "runs P (ret v)"
  by (simp add: runs_def ret_def)

lemma runs_pure_call: "runs P (pure_call r)"
  by (simp add: runs_def pure_call_def)

lemma runs_emit: "P ev \<Longrightarrow> runs P (emit ev)"
  unfolding runs_def emit_def by (intro exI [of _ "[ev]"] exI) simp

lemma runs_ext: "P ev \<Longrightarrow> runs P (ext ev r)"
  unfolding runs_def ext_def by (intro exI [of _ "[ev]"] exI) simp

lemma runs_ext_unit: "P ev \<Longrightarrow> runs P (ext_unit ev r)"
  unfolding runs_def ext_unit_def by (intro exI [of _ "[ev]"] exI) simp

lemma runs_bind:
  assumes "runs P m" and "\<And>v. runs P (f v)"
  shows "runs P (bind_io m f)"
proof -
  obtain r evs where m: "list_all P evs" "\<And>t. m t = (r, t @ evs)"
    using assms(1) unfolding runs_def by blast
  show ?thesis
  proof (cases r)
    case (Inl e)
    then have "\<And>t. bind_io m f t = (Inl e, t @ evs)"
      by (simp add: bind_io_def m(2))
    then show ?thesis
      using m(1) unfolding runs_def by blast
  next
    case (Inr v)
    obtain r' evs' where f: "list_all P evs'" "\<And>t. f v t = (r', t @ evs')"
      using assms(2) [of v] unfolding runs_def by blast
    have "\<And>t. bind_io m f t = (r', t @ evs @ evs')"
      by (simp add: bind_io_def m(2) Inr f(2))
    moreover have "list_all P (evs @ evs')"
      using m(1) f(1) by simp
    ultimately show ?thesis
      unfolding runs_def by blast
  qed
qed

lemma runs_try:
  assumes "runs P m" and "\<And>e. runs P (h e)"
  shows "runs P (try_except m h)"
proof -
  obtain r evs where m: "list_all P evs" "\<And>t. m t = (r, t @ evs)"
    using assms(1) unfolding runs_def by blast
  show ?thesis
  proof (cases r)
    case (Inr v)
    then have "\<And>t. try_except m h t = (Inr v, t @ evs)"
      by (simp add: try_except_def m(2))
    then show ?thesis
      using m(1) unfolding runs_def by blast
  next
    case (Inl e)
    obtain r' evs' where h: "list_all P evs'" "\<And>t. h e t = (r', t @ evs')"
      using assms(2) [of e] unfolding runs_def by blast
    have "\<And>t. try_except m h t = (r', t @ evs @ evs')"
      by (simp add: try_except_def m(2) Inl h(2))
    moreover have "list_all P (evs @ evs')"
      using m(1) h(1) by simp
    ultimately show ?thesis
      unfolding runs_def by blast
  qed
qed

lemma runs_if: "runs P m \<Longrightarrow> runs P m' \<Longrightarrow> runs P (if c then m else m')"
  by simp

lemmas runs_intros = runs_ret runs_pure_call runs_emit runs_ext runs_ext_unit
  runs_bind runs_try runs_if

lemma runs_frame:
  assumes "runs P m"
  shows "m t = (fst (m []), t @ snd (m []))"
proof -
  obtain r evs where m: "\<And>t. m t = (r, t @ evs)"
    using assms unfolding runs_def by blast
  show ?thesis
    using m [of t] m [of "[]"] by simp
qed

lemma runs_events:
  assumes "runs P m"
  shows "list_all P (snd (m []))"
proof -
  obtain r evs where m: "list_all P evs" "\<And>t. m t = (r, t @ evs)"
    using assms unfolding runs_def by blast
  show ?thesis
    using m(1) m(2) [of "[]"] by simp
qed

subsection \<open>Statements that cannot raise\<close>

lemma returns_ret: "returns (ret v)"
  by (simp add: returns_def ret_def)

lemma returns_emit: "returns (emit ev)"
  by (simp add: returns_def emit_def)

lemma returns_ext_unit: "r = None \<Longrightarrow> returns (ext_unit ev r)"
  by (simp add: returns_def ext_unit_def)

lemma returns_bind:
  assumes "returns m" and "\<And>v. returns (f v)"
  shows "returns (bind_io m f)"
  unfolding returns_def
proof
  fix t
  obtain v where v: "fst (m t) = Inr v"
    using assms(1) unfolding returns_def by blast
  then have "bind_io m f t = f v (snd (m t))"
    by (cases "m t") (simp add: bind_io_def)
  then show "\<exists>u. fst (bind_io m f t) = Inr u"
    using assms(2) [of v] unfolding returns_def by simp
qed

text \<open>A \<open>try\<close> whose handler cannot raise cannot raise, whatever its body does.\<close>

lemma returns_try:
  assumes "\<And>e. returns (h e)"
  shows "returns (try_except m h)"
  unfolding returns_def
proof
  fix t
  show "\<exists>u. fst (try_except m h t) = Inr u"
  proof (cases "fst (m t)")
    case (Inr v)
    then have "try_except m h t = (Inr v, snd (m t))"
      by (cases "m t") (simp add: try_except_def)
    then show ?thesis by simp
  next
    case (Inl e)
    then have "try_except m h t = h e (snd (m t))"
      by (cases "m t") (simp add: try_except_def)
    then show ?thesis
      using assms [of e] unfolding returns_def by simp
  qed
qed

lemma returns_if: "returns m \<Longrightarrow> returns m' \<Longrightarrow> returns (if c then m else m')"
  by simp

lemmas returns_intros = returns_ret returns_emit returns_ext_unit returns_bind returns_try
  returns_if

subsection \<open>The adapters\<close>

lemma sheets_runs:
  "runs (\<lambda>ev. ev = EvCall ''_append_to_google_sheets'' \<or> sheets_event ev \<or> is_print ev)
     (append_to_google_sheets w a)"
  unfolding append_to_google_sheets_def Let_def
  by (intro runs_intros; simp)

lemma whatsapp_runs:
  "runs (\<lambda>ev. ev = EvCall ''_send_whatsapp_notification'' \<or> whatsapp_event ev \<or> is_print ev)
     (send_whatsapp_notification w a)"
  unfolding send_whatsapp_notification_def Let_def
  by (intro runs_intros; simp)

text \<open>
  An adapter only appends to the trace, and what it returns and appends does not depend on
  the trace it starts from.
\<close>

lemma sheets_frame:
  "append_to_google_sheets w a t =
     (fst (append_to_google_sheets w a []), t @ snd (append_to_google_sheets w a []))"
  by (rule runs_frame [OF sheets_runs])

lemma whatsapp_frame:
  "send_whatsapp_notification w a t =
     (fst (send_whatsapp_notification w a []), t @ snd (send_whatsapp_notification w a []))"
  by (rule runs_frame [OF whatsapp_runs])

text \<open>
  The handler of an adapter prints and returns \<open>None\<close>; the adapter returns whenever that
  \<open>print\<close> does.
\<close>

lemma sheets_returns:
  assumes "\<And>line. stdout_print w line = None"
  shows "\<exists>r. fst (append_to_google_sheets w a t) = Inr r"
proof -
  have "returns (append_to_google_sheets w a)"
    unfolding append_to_google_sheets_def Let_def by (intro returns_intros assms)
  then show ?thesis
    unfolding returns_def by blast
qed

lemma whatsapp_returns:
  assumes "\<And>line. stdout_print w line = None"
  shows "\<exists>r. fst (send_whatsapp_notification w a t) = Inr r"
proof -
  have "returns (send_whatsapp_notification w a)"
    unfolding send_whatsapp_notification_def Let_def by (intro returns_intros assms)
  then show ?thesis
    unfolding returns_def by blast
qed

lemma sheets_unconfigured:
  "\<not> truthy (environ w ''GOOGLE_SERVICE_ACCOUNT_JSON'') \<or>
   \<not> truthy (environ w ''GOOGLE_SHEETS_SPREADSHEET'') \<Longrightarrow>
   append_to_google_sheets w a t = (Inr None, t @ [EvCall ''_append_to_google_sheets''])"
  by (auto simp add: append_to_google_sheets_def io_defs Let_def getenv_def)

lemma whatsapp_unconfigured:
  "\<not> list_all truthy [environ w ''TWILIO_ACCOUNT_SID'', environ w ''TWILIO_AUTH_TOKEN'',
        environ w ''TWILIO_WHATSAPP_FROM'', environ w ''WHATSAPP_TO''] \<Longrightarrow>
   send_whatsapp_notification w a t = (Inr None, t @ [EvCall ''_send_whatsapp_notification''])"
  by (auto simp add: send_whatsapp_notification_def io_defs Let_def getenv_def)

lemma sheets_event_not_whatsapp: "sheets_event ev \<Longrightarrow> \<not> whatsapp_event ev"
  by (cases ev) auto

lemma is_print_no_channel: "is_print ev \<Longrightarrow> \<not> whatsapp_event ev \<and> \<not> sheets_event ev"
  by (cases ev) auto

lemma filter_empty_if: "list_all P xs \<Longrightarrow> (\<And>x. P x \<Longrightarrow> \<not> Q x) \<Longrightarrow> filter Q xs = []"
  by (induction xs) auto

lemma count_zero_if: "list_all P xs \<Longrightarrow> \<not> P x \<Longrightarrow> count_list xs x = 0"
  by (induction xs) auto

lemma sheets_no_whatsapp_event:
  "filter whatsapp_event (snd (append_to_google_sheets w a [])) = []"
  by (rule filter_empty_if [OF runs_events [OF sheets_runs]])
     (auto dest: sheets_event_not_whatsapp is_print_no_channel)

lemma whatsapp_no_sheets_event:
  "filter sheets_event (snd (send_whatsapp_notification w a [])) = []"
  by (rule filter_empty_if [OF runs_events [OF whatsapp_runs]])
     (auto dest: sheets_event_not_whatsapp is_print_no_channel)

lemma sheets_no_whatsapp_call:
  "count_list (snd (append_to_google_sheets w a [])) (EvCall ''_send_whatsapp_notification'') = 0"
  by (rule count_zero_if [OF runs_events [OF sheets_runs]]) simp

lemma whatsapp_no_sheets_call:
  "count_list (snd (send_whatsapp_notification w a [])) (EvCall ''_append_to_google_sheets'') = 0"
  by (rule count_zero_if [OF runs_events [OF whatsapp_runs]]) simp

text \<open>The first event of an adapter is its call, and no later event is a call.\<close>

lemma runs_after_call:
  assumes "\<And>u. runs P (f u)"
  shows "\<exists>evs. snd (bind_io (emit ev) f t) = t @ ev # evs \<and> list_all P evs"
proof -
  obtain r evs where "list_all P evs" "\<And>t. f () t = (r, t @ evs)"
    using assms [of "()"] unfolding runs_def by blast
  then show ?thesis
    by (simp add: bind_io_def emit_def)
qed

lemma sheets_shape:
  "\<exists>evs. snd (append_to_google_sheets w a t) = t @ EvCall ''_append_to_google_sheets'' # evs
         \<and> list_all (\<lambda>ev. sheets_event ev \<or> is_print ev) evs"
  unfolding append_to_google_sheets_def Let_def
  by (rule runs_after_call) (intro runs_intros; simp)

lemma whatsapp_shape:
  "\<exists>evs. snd (send_whatsapp_notification w a t) = t @ EvCall ''_send_whatsapp_notification'' # evs
         \<and> list_all (\<lambda>ev. whatsapp_event ev \<or> is_print ev) evs"
  unfolding send_whatsapp_notification_def Let_def
  by (rule runs_after_call) (intro runs_intros; simp)

lemma sheets_call_count:
  "count_list (snd (append_to_google_sheets w a [])) (EvCall ''_append_to_google_sheets'') = 1"
proof -
  obtain evs where e: "snd (append_to_google_sheets w a []) = EvCall ''_append_to_google_sheets'' # evs"
    "list_all (\<lambda>ev. sheets_event ev \<or> is_print ev) evs"
    using sheets_shape [of w a "[]"] by auto
  have "count_list evs (EvCall ''_append_to_google_sheets'') = 0"
    by (rule count_zero_if [OF e(2)]) simp
  then show ?thesis
    by (simp add: e(1))
qed

lemma whatsapp_call_count:
  "count_list (snd (send_whatsapp_notification w a [])) (EvCall ''_send_whatsapp_notification'') = 1"
proof -
  obtain evs where e: "snd (send_whatsapp_notification w a []) = EvCall ''_send_whatsapp_notification'' # evs"
    "list_all (\<lambda>ev. whatsapp_event ev \<or> is_print ev) evs"
    using whatsapp_shape [of w a "[]"] by auto
  have "count_list evs (EvCall ''_send_whatsapp_notification'') = 0"
    by (rule count_zero_if [OF e(2)]) simp
  then show ?thesis
    by (simp add: e(1))
qed

subsection \<open>The handler\<close>

lemma create_document_nonempty:
  "create_document w c a = Inr i \<Longrightarrow> i \<noteq> []"
  by (auto simp add: create_document_def split: sum.splits)

text \<open>The outcome and the trace of the handler, from those of the insert and the adapters.\<close>

lemma create_appointment_eval:
  "create_appointment w a t =
     (case create_document w (ascii ''appointment'') a of
        Inl e \<Rightarrow>
          (Inl (HTTPException 500 (ascii ''Database error: '' @ str_exn e)),
           t @ [EvCreateDocument (ascii ''appointment'') a])
      | Inr i \<Rightarrow>
          (case fst (append_to_google_sheets w a []) of
             Inl e \<Rightarrow>
               (Inl (Uncaught e),
                t @ [EvCreateDocument (ascii ''appointment'') a]
                  @ snd (append_to_google_sheets w a []))
           | Inr sheet_ws \<Rightarrow>
               (case fst (send_whatsapp_notification w a []) of
                  Inl e \<Rightarrow>
                    (Inl (Uncaught e),
                     t @ [EvCreateDocument (ascii ''appointment'') a]
                       @ snd (append_to_google_sheets w a [])
                       @ snd (send_whatsapp_notification w a []))
                | Inr whatsapp_sid \<Rightarrow>
                    (Inr \<lparr>ok = True, id' = i, google_sheets = truthy sheet_ws,
                          whatsapp = truthy whatsapp_sid\<rparr>,
                     t @ [EvCreateDocument (ascii ''appointment'') a]
                       @ snd (append_to_google_sheets w a [])
                       @ snd (send_whatsapp_notification w a [])))))"
proof -
  let ?t1 = "t @ [EvCreateDocument (ascii ''appointment'') a]"
  let ?t2 = "t @ EvCreateDocument (ascii ''appointment'') a
               # snd (append_to_google_sheets w a [])"
  have s: "append_to_google_sheets w a ?t1 = (fst (append_to_google_sheets w a []), ?t2)"
    using sheets_frame [of w a ?t1] by simp
  have m: "send_whatsapp_notification w a ?t2 =
      (fst (send_whatsapp_notification w a []), ?t2 @ snd (send_whatsapp_notification w a []))"
    using whatsapp_frame [of w a ?t2] by simp
  show ?thesis
    by (simp add: create_appointment_def ext_def s m split: sum.splits)
qed

lemma create_appointment_failed:
  "create_document w (ascii ''appointment'') a = Inl e \<Longrightarrow>
   create_appointment w a t =
     (Inl (HTTPException 500 (ascii ''Database error: '' @ str_exn e)),
      t @ [EvCreateDocument (ascii ''appointment'') a])"
  by (simp add: create_appointment_eval)

lemma create_appointment_persisted:
  assumes "create_document w (ascii ''appointment'') a = Inr i"
    and "fst (append_to_google_sheets w a []) = Inr sheet_ws"
    and "fst (send_whatsapp_notification w a []) = Inr whatsapp_sid"
  shows "create_appointment w a t =
     (Inr \<lparr>ok = True, id' = i, google_sheets = truthy sheet_ws,
           whatsapp = truthy whatsapp_sid\<rparr>,
      t @ [EvCreateDocument (ascii ''appointment'') a]
        @ snd (append_to_google_sheets w a [])
        @ snd (send_whatsapp_notification w a []))"
  using assms by (simp add: create_appointment_eval)

lemma create_appointment_trace:
  assumes "create_document w (ascii ''appointment'') a = Inr i"
  shows "snd (create_appointment w a []) =
           EvCreateDocument (ascii ''appointment'') a
             # snd (append_to_google_sheets w a [])
             @ (case fst (append_to_google_sheets w a []) of
                  Inl _ \<Rightarrow> []
                | Inr _ \<Rightarrow> snd (send_whatsapp_notification w a []))"
  using assms by (simp add: create_appointment_eval split: sum.splits)

text \<open>A response comes only from an insert and two adapters that have all returned.\<close>

lemma create_appointment_returned:
  assumes "fst (create_appointment w a t) = Inr r"
  shows "\<exists>i s m. create_document w (ascii ''appointment'') a = Inr i
           \<and> fst (append_to_google_sheets w a []) = Inr s
           \<and> fst (send_whatsapp_notification w a []) = Inr m
           \<and> r = \<lparr>ok = True, id' = i, google_sheets = truthy s, whatsapp = truthy m\<rparr>
           \<and> snd (create_appointment w a t) =
               t @ [EvCreateDocument (ascii ''appointment'') a]
                 @ snd (append_to_google_sheets w a [])
                 @ snd (send_whatsapp_notification w a [])"
  using assms by (auto simp add: create_appointment_eval split: sum.splits)

subsection \<open>What a normal return tells\<close>

lemma bind_io_Inr:
  "bind_io m f t = (Inr v, t') \<Longrightarrow> \<exists>u t1. m t = (Inr u, t1) \<and> f u t1 = (Inr v, t')"
  by (cases "m t") (auto simp add: bind_io_def split: sum.splits)

lemma try_except_Inr:
  "try_except m h t = (Inr v, t') \<Longrightarrow>
     m t = (Inr v, t') \<or> (\<exists>e t1. m t = (Inl e, t1) \<and> h e t1 = (Inr v, t'))"
  by (cases "m t") (auto simp add: try_except_def split: sum.splits)

lemma ext_Inr [simp]: "ext ev r t = (Inr v, t') \<longleftrightarrow> r = Inr v \<and> t' = t @ [ev]"
  by (auto simp add: ext_def)

lemma ext_Inl [simp]: "ext ev r t = (Inl e, t') \<longleftrightarrow> r = Inl e \<and> t' = t @ [ev]"
  by (auto simp add: ext_def)

lemma ext_unit_Inr [simp]: "ext_unit ev r t = (Inr v, t') \<longleftrightarrow> r = None \<and> t' = t @ [ev]"
  by (auto simp add: ext_unit_def split: option.splits)

lemma pure_call_Inr [simp]: "pure_call r t = (Inr v, t') \<longleftrightarrow> r = Inr v \<and> t' = t"
  by (auto simp add: pure_call_def)

lemma ret_Inr [simp]: "ret u t = (Inr v, t') \<longleftrightarrow> v = u \<and> t' = t"
  by (auto simp add: ret_def)

lemma emit_Inr [simp]: "emit ev t = (Inr v, t') \<longleftrightarrow> t' = t @ [ev]"
  by (auto simp add: emit_def)

text \<open>An adapter returns a token only when every one of its steps has succeeded.\<close>

lemma sheets_success_only:
  assumes "fst (append_to_google_sheets w a []) = Inr (Some tok)"
  shows "\<exists>data creds gc sh ws.
           truthy (environ w ''GOOGLE_SERVICE_ACCOUNT_JSON'')
         \<and> truthy (environ w ''GOOGLE_SHEETS_SPREADSHEET'')
         \<and> import_module w ''gspread'' = None
         \<and> import_module w ''google.oauth2.service_account'' = None
         \<and> json_loads w (the (environ w ''GOOGLE_SERVICE_ACCOUNT_JSON'')) = Inr data
         \<and> from_service_account_info w data scopes = Inr creds
         \<and> authorize w creds = Inr gc
         \<and> gc_open w gc (the (environ w ''GOOGLE_SHEETS_SPREADSHEET'')) = Inr sh
         \<and> (case sh_worksheet w sh
                   (getenv_default w ''GOOGLE_SHEETS_WORKSHEET'' (ascii ''Sheet1''))
             of Inr named \<Rightarrow> Inr named | Inl _ \<Rightarrow> sh_sheet1 w sh) = Inr ws
         \<and> ws_append_row w ws (row a) = None
         \<and> ws_title w ws = Inr tok"
proof -
  obtain t' where r: "append_to_google_sheets w a [] = (Inr (Some tok), t')"
    using assms by (cases "append_to_google_sheets w a []") simp
  show ?thesis
    using r unfolding append_to_google_sheets_def Let_def getenv_def
    by (auto dest!: bind_io_Inr try_except_Inr split: if_splits)
qed

lemma whatsapp_success_only:
  assumes "fst (send_whatsapp_notification w a []) = Inr (Some tok)"
  shows "\<exists>client msg.
           list_all truthy [environ w ''TWILIO_ACCOUNT_SID'', environ w ''TWILIO_AUTH_TOKEN'',
             environ w ''TWILIO_WHATSAPP_FROM'', environ w ''WHATSAPP_TO'']
         \<and> import_module w ''twilio.rest'' = None
         \<and> twilio_Client w (the (environ w ''TWILIO_ACCOUNT_SID''))
              (the (environ w ''TWILIO_AUTH_TOKEN'')) = Inr client
         \<and> messages_create w client (body a) (the (environ w ''TWILIO_WHATSAPP_FROM''))
              (the (environ w ''WHATSAPP_TO'')) = Inr msg
         \<and> msg_sid w msg = Inr tok"
proof -
  obtain t' where r: "send_whatsapp_notification w a [] = (Inr (Some tok), t')"
    using assms by (cases "send_whatsapp_notification w a []") simp
  show ?thesis
    using r unfolding send_whatsapp_notification_def Let_def getenv_def
    by (auto dest!: bind_io_Inr try_except_Inr split: if_splits)
qed

text \<open>Conversely, when every step succeeds the adapter delivers and returns the token.\<close>

lemma sheets_delivers:
  assumes "truthy (environ w ''GOOGLE_SERVICE_ACCOUNT_JSON'')"
    and "truthy (environ w ''GOOGLE_SHEETS_SPREADSHEET'')"
    and "import_module w ''gspread'' = None"
    and "import_module w ''google.oauth2.service_account'' = None"
    and "json_loads w (the (environ w ''GOOGLE_SERVICE_ACCOUNT_JSON'')) = Inr data"
    and "from_service_account_info w data scopes = Inr creds"
    and "authorize w creds = Inr gc"
    and "gc_open w gc (the (environ w ''GOOGLE_SHEETS_SPREADSHEET'')) = Inr sh"
    and "(case sh_worksheet w sh (getenv_default w ''GOOGLE_SHEETS_WORKSHEET'' (ascii ''Sheet1''))
          of Inr named \<Rightarrow> Inr named | Inl _ \<Rightarrow> sh_sheet1 w sh) = Inr ws"
    and "ws_append_row w ws (row a) = None"
    and "ws_title w ws = Inr title"
  shows "fst (append_to_google_sheets w a []) = Inr (Some title)
       \<and> filter is_append_row (snd (append_to_google_sheets w a [])) = [EvAppendRow ws (row a)]"
proof (cases "sh_worksheet w sh (getenv_default w ''GOOGLE_SHEETS_WORKSHEET'' (ascii ''Sheet1''))")
  case (Inr named)
  then have "named = ws"
    using assms(9) by simp
  then show ?thesis
    using assms Inr by (simp add: append_to_google_sheets_def io_defs Let_def getenv_def)
next
  case (Inl e)
  then have "sh_sheet1 w sh = Inr ws"
    using assms(9) by simp
  then show ?thesis
    using assms Inl by (simp add: append_to_google_sheets_def io_defs Let_def getenv_def)
qed








section \<open>Sample runs of the adapters\<close>

lemma sheets_run_both:
  "append_to_google_sheets world_both appt_A [] =
     (Inr (Some (ascii ''Sheet1'')),
      [EvCall ''_append_to_google_sheets'', EvImport ''gspread'',
       EvImport ''google.oauth2.service_account'', EvCredentials 1 scopes, EvAuthorize 2,
       EvOpen 3 (ascii ''Clinic''), EvWorksheet 4 (ascii ''Sheet1''),
       EvAppendRow 5 (row appt_A)])"
  by (simp add: adapter_defs world_defs)

lemma whatsapp_run_both:
  "send_whatsapp_notification world_both appt_A [] =
     (Inr (Some (ascii ''SM1'')),
      [EvCall ''_send_whatsapp_notification'', EvImport ''twilio.rest'',
       EvClient (ascii ''AC1'') (ascii ''tok''),
       EvMessagesCreate 7 (body appt_A) (ascii ''whatsapp:+1'') (ascii ''whatsapp:+2'')])"
  by (simp add: adapter_defs world_defs)

lemma sheets_run_empty_title:
  "append_to_google_sheets world_empty_title appt_A [] =
     (Inr (Some []),
      [EvCall ''_append_to_google_sheets'', EvImport ''gspread'',
       EvImport ''google.oauth2.service_account'', EvCredentials 1 scopes, EvAuthorize 2,
       EvOpen 3 (ascii ''Clinic''), EvWorksheet 4 (ascii ''Sheet1''),
       EvAppendRow 5 (row appt_A)])"
  by (simp add: adapter_defs world_empty_title_def world_defs)

lemma whatsapp_run_empty_title:
  "fst (send_whatsapp_notification world_empty_title appt_A []) = Inr (Some (ascii ''SM1''))"
  by (simp add: adapter_defs world_empty_title_def world_defs)

section \<open>Persistence failure\<close>

text \<open>
  C1. When \<open>create_document\<close> raises, \<open>POST /appointments\<close> answers with status 500 and
  the detail \<open>Database error: \<close> followed by the message of the exception. The run
  consists of the insert alone: neither adapter is called (both call counts are zero) and
  no call reaches the spreadsheet service or the messaging provider.
\<close>

theorem persistence_failure_is_500:
  assumes "create_document w (ascii ''appointment'') a = Inl e"
  shows "fst (create_appointment w a []) =
           Inl (HTTPException 500 (ascii ''Database error: '' @ str_exn e))
       \<and> snd (create_appointment w a []) = [EvCreateDocument (ascii ''appointment'') a]
       \<and> count_list (snd (create_appointment w a [])) (EvCall ''_append_to_google_sheets'') = 0
       \<and> count_list (snd (create_appointment w a [])) (EvCall ''_send_whatsapp_notification'') = 0
       \<and> filter (\<lambda>ev. sheets_event ev \<or> whatsapp_event ev) (snd (create_appointment w a [])) = []"
  using create_appointment_failed [OF assms, of "[]"] by simp

theorem persistence_failure_is_500_witness:
  "create_document world_db_down (ascii ''appointment'') appt_A
     = Inl (Exception (ascii ''connection refused''))
   \<and> create_appointment world_db_down appt_A [] =
       (Inl (HTTPException 500 (ascii ''Database error: connection refused'')),
        [EvCreateDocument (ascii ''appointment'') appt_A])"
proof -
  have h: "create_document world_db_down (ascii ''appointment'') appt_A
             = Inl (Exception (ascii ''connection refused''))"
    by (simp add: world_db_down_def world_defs)
  from persistence_failure_is_500 [OF h] h show ?thesis
    by (simp add: ascii_append prod_eq_iff)
qed

section \<open>The response after a successful insert\<close>

text \<open>
  C2, as amended. When \<open>create_document\<close> returns the identifier \<open>i\<close> and both adapters
  return, the handler returns exactly \<open>{ok: True, id: i, google_sheets, whatsapp}\<close>,
  where \<open>id\<close> is non-empty and each flag is true iff the adapter of that channel returned
  a token that is not empty.
\<close>

theorem response_after_persist:
  assumes "create_document w (ascii ''appointment'') a = Inr i"
    and "fst (append_to_google_sheets w a []) = Inr sheet_ws"
    and "fst (send_whatsapp_notification w a []) = Inr whatsapp_sid"
  shows "\<exists>r. fst (create_appointment w a []) = Inr r
           \<and> r = \<lparr>ok = True, id' = i,
                   google_sheets = (\<exists>tok. sheet_ws = Some tok \<and> tok \<noteq> []),
                   whatsapp = (\<exists>tok. whatsapp_sid = Some tok \<and> tok \<noteq> [])\<rparr>
           \<and> id' r \<noteq> []"
  using create_appointment_persisted [OF assms, of "[]"] create_document_nonempty [OF assms(1)]
  by (simp add: truthy_iff)

theorem response_after_persist_witness:
  "create_document world_both (ascii ''appointment'') appt_A = Inr (ascii ''65f0c0ffee'')
   \<and> fst (append_to_google_sheets world_both appt_A []) = Inr (Some (ascii ''Sheet1''))
   \<and> fst (send_whatsapp_notification world_both appt_A []) = Inr (Some (ascii ''SM1''))
   \<and> fst (create_appointment world_both appt_A []) =
       Inr \<lparr>ok = True, id' = ascii ''65f0c0ffee'', google_sheets = True, whatsapp = True\<rparr>"
proof -
  have h: "create_document world_both (ascii ''appointment'') appt_A = Inr (ascii ''65f0c0ffee'')"
    by (simp add: world_defs)
  have s: "fst (append_to_google_sheets world_both appt_A []) = Inr (Some (ascii ''Sheet1''))"
    by (simp add: sheets_run_both)
  have m: "fst (send_whatsapp_notification world_both appt_A []) = Inr (Some (ascii ''SM1''))"
    by (simp add: whatsapp_run_both)
  from response_after_persist [OF h s m] h s m show ?thesis
    by auto
qed

text \<open>
  C2 as stated fails. With an empty worksheet title the spreadsheet adapter appends the
  row and returns its success token, the empty string, and the flag is false all the
  same. And a successful insert does not make the handler return: when the provider
  rejects the message and the \<open>print\<close> of the adapter's handler raises, the exception
  leaves the adapter and the handler.
\<close>

theorem flag_false_for_empty_token:
  "fst (append_to_google_sheets world_empty_title appt_A []) = Inr (Some [])
   \<and> filter is_append_row (snd (append_to_google_sheets world_empty_title appt_A []))
       = [EvAppendRow 5 (row appt_A)]
   \<and> fst (create_appointment world_empty_title appt_A []) =
       Inr \<lparr>ok = True, id' = ascii ''65f0c0ffee'', google_sheets = False, whatsapp = True\<rparr>
   \<and> create_document world_message_print_fails (ascii ''appointment'') appt_A
       = Inr (ascii ''65f0c0ffee'')
   \<and> fst (create_appointment world_message_print_fails appt_A []) =
       Inl (Uncaught (Exception (ascii ''[Errno 32] Broken pipe'')))"
proof -
  have h: "create_document world_empty_title (ascii ''appointment'') appt_A
             = Inr (ascii ''65f0c0ffee'')"
    by (simp add: world_empty_title_def world_defs)
  have s: "fst (append_to_google_sheets world_empty_title appt_A []) = Inr (Some [])"
    by (simp add: sheets_run_empty_title)
  have r: "fst (create_appointment world_empty_title appt_A []) =
       Inr \<lparr>ok = True, id' = ascii ''65f0c0ffee'', google_sheets = False, whatsapp = True\<rparr>"
    using create_appointment_persisted [OF h s whatsapp_run_empty_title, of "[]"] by simp
  have h': "create_document world_message_print_fails (ascii ''appointment'') appt_A
             = Inr (ascii ''65f0c0ffee'')"
    by (simp add: world_message_print_fails_def world_defs)
  have s': "fst (append_to_google_sheets world_message_print_fails appt_A [])
             = Inr (Some (ascii ''Sheet1''))"
    by (simp add: adapter_defs world_message_print_fails_def world_defs)
  have m': "fst (send_whatsapp_notification world_message_print_fails appt_A [])
             = Inl (Exception (ascii ''[Errno 32] Broken pipe''))"
    by (simp add: adapter_defs world_message_print_fails_def world_defs)
  have r': "fst (create_appointment world_message_print_fails appt_A []) =
       Inl (Uncaught (Exception (ascii ''[Errno 32] Broken pipe'')))"
    by (simp add: create_appointment_eval h' s' m')
  show ?thesis
    using r r' h' by (simp add: sheets_run_empty_title)
qed

section \<open>Where the configuration gate sits\<close>

text \<open>
  C3, as amended. After a successful insert the handler calls the spreadsheet adapter
  exactly once and, when that adapter returns, the messaging adapter exactly once, whether
  the channel is configured or not: the configuration gate is the first statement of the
  adapter itself. An adapter whose channel is not configured returns \<open>None\<close> before its
  first import, so the run holds no call to the spreadsheet service (respectively to the
  messaging provider): no delivery is attempted.
\<close>

theorem adapters_called_gate_inside:
  assumes "create_document w (ascii ''appointment'') a = Inr i"
  shows "count_list (snd (create_appointment w a [])) (EvCall ''_append_to_google_sheets'') = 1
       \<and> ((\<exists>s. fst (append_to_google_sheets w a []) = Inr s) \<longrightarrow>
            count_list (snd (create_appointment w a []))
              (EvCall ''_send_whatsapp_notification'') = 1)
       \<and> (\<not> truthy (environ w ''GOOGLE_SERVICE_ACCOUNT_JSON'') \<or>
           \<not> truthy (environ w ''GOOGLE_SHEETS_SPREADSHEET'') \<longrightarrow>
             append_to_google_sheets w a [] = (Inr None, [EvCall ''_append_to_google_sheets''])
           \<and> filter sheets_event (snd (create_appointment w a [])) = [])
       \<and> (\<not> list_all truthy [environ w ''TWILIO_ACCOUNT_SID'', environ w ''TWILIO_AUTH_TOKEN'',
              environ w ''TWILIO_WHATSAPP_FROM'', environ w ''WHATSAPP_TO''] \<longrightarrow>
             send_whatsapp_notification w a [] =
               (Inr None, [EvCall ''_send_whatsapp_notification''])
           \<and> filter whatsapp_event (snd (create_appointment w a [])) = [])"
proof -
  note tr = create_appointment_trace [OF assms]
  have c1: "count_list (snd (create_appointment w a [])) (EvCall ''_append_to_google_sheets'') = 1"
    by (simp add: tr sheets_call_count whatsapp_no_sheets_call split: sum.splits)
  have c2: "count_list (snd (create_appointment w a [])) (EvCall ''_send_whatsapp_notification'') = 1"
    if "\<exists>s. fst (append_to_google_sheets w a []) = Inr s"
    using that by (auto simp add: tr whatsapp_call_count sheets_no_whatsapp_call)
  have g1: "append_to_google_sheets w a [] = (Inr None, [EvCall ''_append_to_google_sheets''])
           \<and> filter sheets_event (snd (create_appointment w a [])) = []"
    if "\<not> truthy (environ w ''GOOGLE_SERVICE_ACCOUNT_JSON'') \<or>
        \<not> truthy (environ w ''GOOGLE_SHEETS_SPREADSHEET'')"
    using sheets_unconfigured [OF that, of a "[]"] by (simp add: tr whatsapp_no_sheets_event)
  have g2: "send_whatsapp_notification w a [] =
               (Inr None, [EvCall ''_send_whatsapp_notification''])
           \<and> filter whatsapp_event (snd (create_appointment w a [])) = []"
    if "\<not> list_all truthy [environ w ''TWILIO_ACCOUNT_SID'', environ w ''TWILIO_AUTH_TOKEN'',
              environ w ''TWILIO_WHATSAPP_FROM'', environ w ''WHATSAPP_TO'']"
    using whatsapp_unconfigured [OF that, of a "[]"]
    by (simp add: tr sheets_no_whatsapp_event split: sum.splits)
  show ?thesis
    using c1 c2 g1 g2 by blast
qed

theorem adapters_called_gate_inside_witness:
  "create_document world_none (ascii ''appointment'') appt_A = Inr (ascii ''65f0c0ffee'')
   \<and> \<not> truthy (environ world_none ''GOOGLE_SERVICE_ACCOUNT_JSON'')
   \<and> \<not> list_all truthy [environ world_none ''TWILIO_ACCOUNT_SID'',
          environ world_none ''TWILIO_AUTH_TOKEN'',
          environ world_none ''TWILIO_WHATSAPP_FROM'', environ world_none ''WHATSAPP_TO'']
   \<and> fst (append_to_google_sheets world_none appt_A []) = Inr None
   \<and> count_list (snd (create_appointment world_none appt_A []))
        (EvCall ''_append_to_google_sheets'') = 1
   \<and> count_list (snd (create_appointment world_none appt_A []))
        (EvCall ''_send_whatsapp_notification'') = 1
   \<and> filter sheets_event (snd (create_appointment world_none appt_A [])) = []
   \<and> filter whatsapp_event (snd (create_appointment world_none appt_A [])) = []"
proof -
  have h: "create_document world_none (ascii ''appointment'') appt_A = Inr (ascii ''65f0c0ffee'')"
    by (simp add: world_defs)
  have e: "environ world_none = (\<lambda>_. None)"
    by (simp add: world_defs)
  have s: "fst (append_to_google_sheets world_none appt_A []) = Inr None"
    using sheets_unconfigured [of world_none appt_A "[]"] by (simp add: e)
  from adapters_called_gate_inside [OF h] h s show ?thesis
    by (simp add: e)
qed

text \<open>
  C3 as stated fails: with no channel configured, the run of the handler holds the call of
  each adapter.
\<close>

theorem unconfigured_adapter_is_called:
  "\<not> truthy (environ world_none ''GOOGLE_SERVICE_ACCOUNT_JSON'')
   \<and> \<not> truthy (environ world_none ''TWILIO_ACCOUNT_SID'')
   \<and> snd (create_appointment world_none appt_A []) =
       [EvCreateDocument (ascii ''appointment'') appt_A,
        EvCall ''_append_to_google_sheets'', EvCall ''_send_whatsapp_notification'']"
proof -
  have h: "create_document world_none (ascii ''appointment'') appt_A = Inr (ascii ''65f0c0ffee'')"
    by (simp add: world_defs)
  have e: "environ world_none = (\<lambda>_. None)"
    by (simp add: world_defs)
  have s: "append_to_google_sheets world_none appt_A [] =
             (Inr None, [EvCall ''_append_to_google_sheets''])"
    using sheets_unconfigured [of world_none appt_A "[]"] by (simp add: e)
  have m: "send_whatsapp_notification world_none appt_A [] =
             (Inr None, [EvCall ''_send_whatsapp_notification''])"
    using whatsapp_unconfigured [of world_none appt_A "[]"] by (simp add: e)
  show ?thesis
    using create_appointment_trace [OF h] by (simp add: e s m)
qed

section \<open>When a channel is configured\<close>

lemma spec_spreadsheet_configured_iff:
  "spec_spreadsheet_configured w \<longleftrightarrow>
     truthy (environ w ''GOOGLE_SERVICE_ACCOUNT_JSON'')
     \<and> truthy (environ w ''GOOGLE_SHEETS_SPREADSHEET'')"
  by (simp add: spec_spreadsheet_configured_def present_nonempty_def truthy_def)

lemma spec_messaging_configured_iff:
  "spec_messaging_configured w \<longleftrightarrow>
     list_all truthy [environ w ''TWILIO_ACCOUNT_SID'', environ w ''TWILIO_AUTH_TOKEN'',
       environ w ''TWILIO_WHATSAPP_FROM'', environ w ''WHATSAPP_TO'']"
  by (simp add: spec_messaging_configured_def present_nonempty_def truthy_def)

text \<open>Once the gate is passed, the first thing an adapter does is its first import.\<close>

lemma runs_call_then_import:
  assumes "\<And>u. runs (\<lambda>_. True) (f u)" and "\<And>e. runs (\<lambda>_. True) (h e)"
  shows "\<exists>evs. snd (bind_io (emit ev0) (\<lambda>_. try_except (bind_io (ext_unit ev r) f) h) t)
           = t @ ev0 # ev # evs"
proof (cases r)
  case None
  have "runs (\<lambda>_. True) (try_except (f ()) h)"
    by (intro runs_try assms)
  then obtain r' evs where "\<And>t. try_except (f ()) h t = (r', t @ evs)"
    unfolding runs_def by blast
  then have "\<And>t. try_except (bind_io (ext_unit ev r) f) h t = (r', (t @ [ev]) @ evs)"
    using None by (simp add: try_except_def bind_io_def ext_unit_def)
  then show ?thesis
    by (simp add: bind_io_def emit_def)
next
  case (Some e)
  obtain r' evs where "\<And>t. h e t = (r', t @ evs)"
    using assms(2) [of e] unfolding runs_def by blast
  then have "\<And>t. try_except (bind_io (ext_unit ev r) f) h t = (r', (t @ [ev]) @ evs)"
    using Some by (simp add: try_except_def bind_io_def ext_unit_def)
  then show ?thesis
    by (simp add: bind_io_def emit_def)
qed

lemma sheets_configured_attempts:
  assumes "truthy (environ w ''GOOGLE_SERVICE_ACCOUNT_JSON'')"
    and "truthy (environ w ''GOOGLE_SHEETS_SPREADSHEET'')"
  shows "\<exists>evs. snd (append_to_google_sheets w a t) =
           t @ EvCall ''_append_to_google_sheets'' # EvImport ''gspread'' # evs"
  unfolding append_to_google_sheets_def Let_def getenv_def
  by (simp only: assms simp_thms if_False)
     (rule runs_call_then_import; intro runs_intros; simp)

lemma whatsapp_configured_attempts:
  assumes "list_all truthy [environ w ''TWILIO_ACCOUNT_SID'', environ w ''TWILIO_AUTH_TOKEN'',
       environ w ''TWILIO_WHATSAPP_FROM'', environ w ''WHATSAPP_TO'']"
  shows "\<exists>evs. snd (send_whatsapp_notification w a t) =
           t @ EvCall ''_send_whatsapp_notification'' # EvImport ''twilio.rest'' # evs"
  unfolding send_whatsapp_notification_def Let_def getenv_def
  by (simp only: assms simp_thms if_False)
     (rule runs_call_then_import; intro runs_intros; simp)

lemma sheets_attempt_iff:
  "filter sheets_event (snd (append_to_google_sheets w a [])) \<noteq> []
     \<longleftrightarrow> spec_spreadsheet_configured w"
proof (cases "spec_spreadsheet_configured w")
  case True
  then obtain evs where "snd (append_to_google_sheets w a []) =
      EvCall ''_append_to_google_sheets'' # EvImport ''gspread'' # evs"
    using sheets_configured_attempts [of w a "[]"]
    by (auto simp add: spec_spreadsheet_configured_iff)
  then show ?thesis
    using True by simp
next
  case False
  then have "append_to_google_sheets w a [] = (Inr None, [EvCall ''_append_to_google_sheets''])"
    using sheets_unconfigured [of w a "[]"] by (auto simp add: spec_spreadsheet_configured_iff)
  then show ?thesis
    using False by simp
qed

lemma whatsapp_attempt_iff:
  "filter whatsapp_event (snd (send_whatsapp_notification w a [])) \<noteq> []
     \<longleftrightarrow> spec_messaging_configured w"
proof (cases "spec_messaging_configured w")
  case True
  then obtain evs where "snd (send_whatsapp_notification w a []) =
      EvCall ''_send_whatsapp_notification'' # EvImport ''twilio.rest'' # evs"
    using whatsapp_configured_attempts [of w a "[]"]
    by (auto simp add: spec_messaging_configured_iff)
  then show ?thesis
    using True by simp
next
  case False
  then have "send_whatsapp_notification w a [] =
      (Inr None, [EvCall ''_send_whatsapp_notification''])"
    using whatsapp_unconfigured [of w a "[]"] by (simp add: spec_messaging_configured_iff)
  then show ?thesis
    using False by simp
qed

lemma sheets_flag_unconfigured:
  assumes "\<not> spec_spreadsheet_configured w" and "fst (create_appointment w a []) = Inr r"
  shows "\<not> google_sheets r \<and> filter sheets_event (snd (create_appointment w a [])) = []"
proof -
  have s: "append_to_google_sheets w a [] = (Inr None, [EvCall ''_append_to_google_sheets''])"
    using sheets_unconfigured [of w a "[]"] assms(1)
    by (auto simp add: spec_spreadsheet_configured_iff)
  show ?thesis
    using create_appointment_returned [OF assms(2)]
    by (auto simp add: s whatsapp_no_sheets_event)
qed

lemma whatsapp_flag_unconfigured:
  assumes "\<not> spec_messaging_configured w" and "fst (create_appointment w a []) = Inr r"
  shows "\<not> whatsapp r \<and> filter whatsapp_event (snd (create_appointment w a [])) = []"
proof -
  have m: "send_whatsapp_notification w a [] =
      (Inr None, [EvCall ''_send_whatsapp_notification''])"
    using whatsapp_unconfigured [of w a "[]"] assms(1)
    by (simp add: spec_messaging_configured_iff)
  show ?thesis
    using create_appointment_returned [OF assms(2)]
    by (auto simp add: m sheets_no_whatsapp_event)
qed

lemma worksheet_default:
  assumes "environ w ''GOOGLE_SHEETS_WORKSHEET'' = None"
  shows "append_to_google_sheets w a =
         append_to_google_sheets
           (w\<lparr>environ := (environ w)(''GOOGLE_SHEETS_WORKSHEET'' \<mapsto> ascii ''Sheet1'')\<rparr>) a"
  by (simp add: append_to_google_sheets_def getenv_def getenv_default_def Let_def assms)

text \<open>
  C4. The gate of each adapter is the configuration predicate of the specification: the
  spreadsheet adapter reaches the spreadsheet service iff the credential blob and the
  spreadsheet identifier are both present and non-empty, the messaging adapter reaches the
  provider iff its four values are. When a required value is absent or empty the adapter
  returns \<open>None\<close>, the run of the handler holds no call on that channel, and the flag of
  the channel is false. The worksheet name is not required: leaving it unset is the same
  as setting it to \<open>Sheet1\<close>.
\<close>

theorem configured_iff_required_values:
  "(filter sheets_event (snd (append_to_google_sheets w a [])) \<noteq> []
      \<longleftrightarrow> spec_spreadsheet_configured w)
   \<and> (filter whatsapp_event (snd (send_whatsapp_notification w a [])) \<noteq> []
      \<longleftrightarrow> spec_messaging_configured w)
   \<and> (\<not> spec_spreadsheet_configured w \<longrightarrow>
        fst (append_to_google_sheets w a []) = Inr None
        \<and> (\<forall>r. fst (create_appointment w a []) = Inr r \<longrightarrow>
              \<not> google_sheets r
              \<and> filter sheets_event (snd (create_appointment w a [])) = []))
   \<and> (\<not> spec_messaging_configured w \<longrightarrow>
        fst (send_whatsapp_notification w a []) = Inr None
        \<and> (\<forall>r. fst (create_appointment w a []) = Inr r \<longrightarrow>
              \<not> whatsapp r
              \<and> filter whatsapp_event (snd (create_appointment w a [])) = []))
   \<and> (environ w ''GOOGLE_SHEETS_WORKSHEET'' = None \<longrightarrow>
        append_to_google_sheets w a =
        append_to_google_sheets
          (w\<lparr>environ := (environ w)(''GOOGLE_SHEETS_WORKSHEET'' \<mapsto> ascii ''Sheet1'')\<rparr>) a)"
proof -
  have s: "fst (append_to_google_sheets w a []) = Inr None"
    if "\<not> spec_spreadsheet_configured w"
    using sheets_unconfigured [of w a "[]"] that
    by (auto simp add: spec_spreadsheet_configured_iff)
  have m: "fst (send_whatsapp_notification w a []) = Inr None"
    if "\<not> spec_messaging_configured w"
    using whatsapp_unconfigured [of w a "[]"] that
    by (simp add: spec_messaging_configured_iff)
  show ?thesis
    using sheets_attempt_iff [of w a] whatsapp_attempt_iff [of w a] s m
      sheets_flag_unconfigured [of w a] whatsapp_flag_unconfigured [of w a]
      worksheet_default [of w a]
    by blast
qed

theorem configured_iff_required_values_witness:
  "\<not> spec_spreadsheet_configured world_twilio
   \<and> spec_messaging_configured world_twilio
   \<and> environ world_twilio ''GOOGLE_SHEETS_WORKSHEET'' = None
   \<and> filter sheets_event (snd (append_to_google_sheets world_twilio appt_A [])) = []
   \<and> filter whatsapp_event (snd (send_whatsapp_notification world_twilio appt_A [])) \<noteq> []
   \<and> fst (append_to_google_sheets world_twilio appt_A []) = Inr None
   \<and> fst (create_appointment world_twilio appt_A []) =
       Inr \<lparr>ok = True, id' = ascii ''65f0c0ffee'', google_sheets = False, whatsapp = True\<rparr>
   \<and> filter sheets_event (snd (create_appointment world_twilio appt_A [])) = []"
proof -
  have c: "\<not> spec_spreadsheet_configured world_twilio" "spec_messaging_configured world_twilio"
    "environ world_twilio ''GOOGLE_SHEETS_WORKSHEET'' = None"
    by (simp_all add: spec_spreadsheet_configured_def spec_messaging_configured_def
          present_nonempty_def world_defs)
  have h: "create_document world_twilio (ascii ''appointment'') appt_A
             = Inr (ascii ''65f0c0ffee'')"
    by (simp add: world_defs)
  have s: "fst (append_to_google_sheets world_twilio appt_A []) = Inr None"
    by (simp add: adapter_defs world_defs)
  have m: "fst (send_whatsapp_notification world_twilio appt_A []) = Inr (Some (ascii ''SM1''))"
    by (simp add: adapter_defs world_defs)
  have r: "fst (create_appointment world_twilio appt_A []) =
       Inr \<lparr>ok = True, id' = ascii ''65f0c0ffee'', google_sheets = False, whatsapp = True\<rparr>"
    using create_appointment_persisted [OF h s m, of "[]"] by simp
  from configured_iff_required_values [of world_twilio appt_A] c r s show ?thesis
    by blast
qed

section \<open>Failures and the boundary of the adapters\<close>

lemma sheets_None_or_token:
  assumes "\<And>line. stdout_print w line = None"
  shows "fst (append_to_google_sheets w a []) = Inr None
       \<or> (\<exists>tok. fst (append_to_google_sheets w a []) = Inr (Some tok))"
  using sheets_returns [OF assms, of a "[]"] by (metis option.exhaust)

lemma whatsapp_None_or_token:
  assumes "\<And>line. stdout_print w line = None"
  shows "fst (send_whatsapp_notification w a []) = Inr None
       \<or> (\<exists>tok. fst (send_whatsapp_notification w a []) = Inr (Some tok))"
  using whatsapp_returns [OF assms, of a "[]"] by (metis option.exhaust)

text \<open>
  As long as \<open>print\<close> returns, the adapters keep their failures to themselves: each
  returns, a failing import, credential blob, spreadsheet, row or message comes out as
  \<open>None\<close>, and the handler returns its response whenever the insert has succeeded.
\<close>

lemma adapters_contain_failures:
  assumes p: "\<And>line. stdout_print w line = None"
  shows "(\<exists>r. fst (append_to_google_sheets w a t) = Inr r)
   \<and> (\<exists>r. fst (send_whatsapp_notification w a t) = Inr r)
   \<and> (import_module w ''gspread'' \<noteq> None \<or>
        import_module w ''google.oauth2.service_account'' \<noteq> None \<longrightarrow>
          fst (append_to_google_sheets w a []) = Inr None)
   \<and> ((\<exists>e. json_loads w (the (environ w ''GOOGLE_SERVICE_ACCOUNT_JSON'')) = Inl e) \<longrightarrow>
          fst (append_to_google_sheets w a []) = Inr None)
   \<and> ((\<forall>gc. \<exists>e. gc_open w gc (the (environ w ''GOOGLE_SHEETS_SPREADSHEET'')) = Inl e) \<longrightarrow>
          fst (append_to_google_sheets w a []) = Inr None)
   \<and> ((\<forall>ws. \<exists>e. ws_append_row w ws (row a) = Some e) \<longrightarrow>
          fst (append_to_google_sheets w a []) = Inr None)
   \<and> (import_module w ''twilio.rest'' \<noteq> None \<longrightarrow>
          fst (send_whatsapp_notification w a []) = Inr None)
   \<and> ((\<forall>client. \<exists>e. messages_create w client (body a)
              (the (environ w ''TWILIO_WHATSAPP_FROM'')) (the (environ w ''WHATSAPP_TO''))
            = Inl e) \<longrightarrow>
          fst (send_whatsapp_notification w a []) = Inr None)
   \<and> ((\<exists>i. create_document w (ascii ''appointment'') a = Inr i) \<longrightarrow>
          (\<exists>r. fst (create_appointment w a t) = Inr r))"
proof -
  note sn = sheets_None_or_token [OF p, of a]
  note mn = whatsapp_None_or_token [OF p, of a]
  have s1: "fst (append_to_google_sheets w a []) = Inr None"
    if "import_module w ''gspread'' \<noteq> None \<or>
        import_module w ''google.oauth2.service_account'' \<noteq> None"
    using sn sheets_success_only [of w a] that by auto
  have s2: "fst (append_to_google_sheets w a []) = Inr None"
    if "\<exists>e. json_loads w (the (environ w ''GOOGLE_SERVICE_ACCOUNT_JSON'')) = Inl e"
    using sn sheets_success_only [of w a] that by auto
  have s3: "fst (append_to_google_sheets w a []) = Inr None"
    if "\<forall>gc. \<exists>e. gc_open w gc (the (environ w ''GOOGLE_SHEETS_SPREADSHEET'')) = Inl e"
    using sn sheets_success_only [of w a] that
    by (metis Inl_Inr_False)
  have s4: "fst (append_to_google_sheets w a []) = Inr None"
    if "\<forall>ws. \<exists>e. ws_append_row w ws (row a) = Some e"
    using sn sheets_success_only [of w a] that
    by (metis option.distinct(1))
  have m1: "fst (send_whatsapp_notification w a []) = Inr None"
    if "import_module w ''twilio.rest'' \<noteq> None"
    using mn whatsapp_success_only [of w a] that by auto
  have m2: "fst (send_whatsapp_notification w a []) = Inr None"
    if "\<forall>client. \<exists>e. messages_create w client (body a)
              (the (environ w ''TWILIO_WHATSAPP_FROM'')) (the (environ w ''WHATSAPP_TO''))
            = Inl e"
    using mn whatsapp_success_only [of w a] that
    by (metis Inl_Inr_False)
  have h: "\<exists>r. fst (create_appointment w a t) = Inr r"
    if ex: "\<exists>i. create_document w (ascii ''appointment'') a = Inr i"
  proof -
    obtain i where i: "create_document w (ascii ''appointment'') a = Inr i"
      using ex by blast
    obtain s where s: "fst (append_to_google_sheets w a []) = Inr s"
      using sheets_returns [OF p] by blast
    obtain m where m: "fst (send_whatsapp_notification w a []) = Inr m"
      using whatsapp_returns [OF p] by blast
    show ?thesis
      using create_appointment_persisted [OF i s m, of t] by simp
  qed
  show ?thesis
    using sheets_returns [OF p, of a t] whatsapp_returns [OF p, of a t] s1 s2 s3 s4 m1 m2 h
    by blast
qed

text \<open>
  C5 says that no failure inside an adapter reaches its caller. The \<open>print\<close> in the
  \<open>except\<close> block of each adapter runs under no \<open>try\<close>, so the code does not keep that
  promise: with the spreadsheet channel configured, \<open>gc.open\<close> failing and the standard
  output a closed pipe, \<open>_append_to_google_sheets\<close> ends with the exception of \<open>print\<close>
  instead of returning \<open>None\<close>.
\<close>

theorem failing_print_leaves_adapter:
  "append_to_google_sheets world_print_fails appt_A [] =
     (Inl (Exception (ascii ''[Errno 32] Broken pipe'')),
      [EvCall ''_append_to_google_sheets'', EvImport ''gspread'',
       EvImport ''google.oauth2.service_account'', EvCredentials 1 scopes, EvAuthorize 2,
       EvOpen 3 (ascii ''Clinic''),
       EvPrint (ascii ''Google Sheets integration error: timeout'')])"
  by (simp add: adapter_defs world_print_fails_def world_sheets_down_def world_defs ascii_append)

text \<open>
  In that run the insert has succeeded, and the handler of \<open>POST /appointments\<close> raises
  all the same: the messaging adapter is not called.
\<close>

theorem failing_print_leaves_adapter_witness:
  "create_document world_print_fails (ascii ''appointment'') appt_A = Inr (ascii ''65f0c0ffee'')
   \<and> create_appointment world_print_fails appt_A [] =
       (Inl (Uncaught (Exception (ascii ''[Errno 32] Broken pipe''))),
        [EvCreateDocument (ascii ''appointment'') appt_A,
         EvCall ''_append_to_google_sheets'', EvImport ''gspread'',
         EvImport ''google.oauth2.service_account'', EvCredentials 1 scopes, EvAuthorize 2,
         EvOpen 3 (ascii ''Clinic''),
         EvPrint (ascii ''Google Sheets integration error: timeout'')])"
proof -
  have h: "create_document world_print_fails (ascii ''appointment'') appt_A
             = Inr (ascii ''65f0c0ffee'')"
    by (simp add: world_print_fails_def world_sheets_down_def world_defs)
  from failing_print_leaves_adapter h show ?thesis
    by (simp add: create_appointment_eval)
qed

section \<open>The channels do not influence each other\<close>




section \<open>The row written to the spreadsheet\<close>

lemma py_or_empty: "py_or x [] = (case x of None \<Rightarrow> [] | Some s \<Rightarrow> s)"
  by (simp add: py_or_def split: option.splits)

text \<open>
  C7. When the spreadsheet channel is configured and the spreadsheet has been opened, the
  worksheet written to is the named one if \<open>sh.worksheet\<close> finds it and \<open>sh.sheet1\<close>
  otherwise. If the append and the reading of the title succeed, the run holds exactly
  one \<open>append_row\<close>, on that worksheet, of the row name, email, phone, department,
  date or the empty string, notes or the empty string, and the adapter returns the title
  of that worksheet.
\<close>

theorem sheets_appends_one_row:
  assumes "truthy (environ w ''GOOGLE_SERVICE_ACCOUNT_JSON'')"
    and "truthy (environ w ''GOOGLE_SHEETS_SPREADSHEET'')"
    and "import_module w ''gspread'' = None"
    and "import_module w ''google.oauth2.service_account'' = None"
    and "json_loads w (the (environ w ''GOOGLE_SERVICE_ACCOUNT_JSON'')) = Inr data"
    and "from_service_account_info w data scopes = Inr creds"
    and "authorize w creds = Inr gc"
    and "gc_open w gc (the (environ w ''GOOGLE_SHEETS_SPREADSHEET'')) = Inr sh"
    and "(case sh_worksheet w sh (getenv_default w ''GOOGLE_SHEETS_WORKSHEET'' (ascii ''Sheet1''))
          of Inr named \<Rightarrow> Inr named | Inl _ \<Rightarrow> sh_sheet1 w sh) = Inr ws"
    and "ws_append_row w ws (row a) = None"
    and "ws_title w ws = Inr title"
  shows "fst (append_to_google_sheets w a []) = Inr (Some title)
       \<and> filter is_append_row (snd (append_to_google_sheets w a [])) =
           [EvAppendRow ws
              [name a, email a, phone a, department a,
               case date a of None \<Rightarrow> [] | Some d \<Rightarrow> d,
               case notes' a of None \<Rightarrow> [] | Some n \<Rightarrow> n]]"
  using sheets_delivers [OF assms] by (simp add: row_def py_or_empty)

theorem sheets_appends_one_row_witness:
  "truthy (environ world_no_named_ws ''GOOGLE_SERVICE_ACCOUNT_JSON'')
   \<and> truthy (environ world_no_named_ws ''GOOGLE_SHEETS_SPREADSHEET'')
   \<and> sh_worksheet world_no_named_ws 4 (ascii ''Sheet1'')
       = Inl (Exception (ascii ''WorksheetNotFound''))
   \<and> sh_sheet1 world_no_named_ws 4 = Inr 6
   \<and> ws_title world_no_named_ws 6 = Inr (ascii ''First'')
   \<and> fst (append_to_google_sheets world_no_named_ws appt_A []) = Inr (Some (ascii ''First''))
   \<and> filter is_append_row (snd (append_to_google_sheets world_no_named_ws appt_A [])) =
        [EvAppendRow 6 [ascii ''A'', ascii ''a@x.com'', ascii ''1'', ascii ''D'', [], []]]"
proof -
  have c: "truthy (environ world_no_named_ws ''GOOGLE_SERVICE_ACCOUNT_JSON'')"
      "truthy (environ world_no_named_ws ''GOOGLE_SHEETS_SPREADSHEET'')"
    by (simp_all add: world_no_named_ws_def world_defs)
  have i: "import_module world_no_named_ws ''gspread'' = None"
      "import_module world_no_named_ws ''google.oauth2.service_account'' = None"
    by (simp_all add: world_no_named_ws_def world_defs)
  have j: "json_loads world_no_named_ws
             (the (environ world_no_named_ws ''GOOGLE_SERVICE_ACCOUNT_JSON'')) = Inr 1"
    by (simp add: world_no_named_ws_def world_defs)
  have k: "from_service_account_info world_no_named_ws 1 scopes = Inr 2"
      "authorize world_no_named_ws 2 = Inr 3"
    by (simp_all add: world_no_named_ws_def world_defs)
  have l: "gc_open world_no_named_ws 3
             (the (environ world_no_named_ws ''GOOGLE_SHEETS_SPREADSHEET'')) = Inr 4"
    by (simp add: world_no_named_ws_def world_defs)
  have n: "sh_worksheet world_no_named_ws 4 (ascii ''Sheet1'')
             = Inl (Exception (ascii ''WorksheetNotFound''))"
      "sh_sheet1 world_no_named_ws 4 = Inr 6"
    by (simp_all add: world_no_named_ws_def world_defs)
  have d: "getenv_default world_no_named_ws ''GOOGLE_SHEETS_WORKSHEET'' (ascii ''Sheet1'')
             = ascii ''Sheet1''"
    by (simp add: getenv_default_def world_no_named_ws_def world_defs)
  have ws: "(case sh_worksheet world_no_named_ws 4
                 (getenv_default world_no_named_ws ''GOOGLE_SHEETS_WORKSHEET'' (ascii ''Sheet1''))
          of Inr named \<Rightarrow> Inr named | Inl _ \<Rightarrow> sh_sheet1 world_no_named_ws 4) = Inr 6"
    by (simp add: d n)
  have p: "ws_append_row world_no_named_ws 6 (row appt_A) = None"
    by (simp add: world_no_named_ws_def world_defs)
  have q: "ws_title world_no_named_ws 6 = Inr (ascii ''First'')"
    by (simp add: world_no_named_ws_def world_defs)
  from sheets_appends_one_row [OF c i j k l ws p q] c n q show ?thesis
    by (simp add: appt_A_def)
qed

section \<open>Optional fields that are absent\<close>

lemma row_absent:
  "date a = None \<Longrightarrow> row (a\<lparr>date := Some []\<rparr>) = row a"
  "notes' a = None \<Longrightarrow> row (a\<lparr>notes' := Some []\<rparr>) = row a"
  by (simp_all add: row_def py_or_def)

lemma body_absent:
  "date a = None \<Longrightarrow> body (a\<lparr>date := Some []\<rparr>) = body a"
  "notes' a = None \<Longrightarrow> body (a\<lparr>notes' := Some []\<rparr>) = body a"
  by (simp_all add: body_def py_or_def)

lemma document_absent:
  "date a = None \<Longrightarrow> document (a\<lparr>date := Some []\<rparr>) = document a"
  "notes' a = None \<Longrightarrow> document (a\<lparr>notes' := Some []\<rparr>) = document a"
  by (simp_all add: document_def)

lemma sheets_absent:
  "date a = None \<Longrightarrow>
     append_to_google_sheets w (a\<lparr>date := Some []\<rparr>) = append_to_google_sheets w a"
  "notes' a = None \<Longrightarrow>
     append_to_google_sheets w (a\<lparr>notes' := Some []\<rparr>) = append_to_google_sheets w a"
  by (simp_all add: append_to_google_sheets_def Let_def row_absent)

lemma whatsapp_absent:
  "date a = None \<Longrightarrow>
     send_whatsapp_notification w (a\<lparr>date := Some []\<rparr>) = send_whatsapp_notification w a"
  "notes' a = None \<Longrightarrow>
     send_whatsapp_notification w (a\<lparr>notes' := Some []\<rparr>) = send_whatsapp_notification w a"
  by (simp_all add: send_whatsapp_notification_def Let_def body_absent)

lemma create_document_absent:
  "date a = None \<Longrightarrow> create_document w c (a\<lparr>date := Some []\<rparr>) = create_document w c a"
  "notes' a = None \<Longrightarrow> create_document w c (a\<lparr>notes' := Some []\<rparr>) = create_document w c a"
  by (simp_all add: create_document_def document_absent)

lemma create_appointment_absent:
  "date a = None \<Longrightarrow>
     fst (create_appointment w (a\<lparr>date := Some []\<rparr>) t) = fst (create_appointment w a t)"
  "notes' a = None \<Longrightarrow>
     fst (create_appointment w (a\<lparr>notes' := Some []\<rparr>) t) = fst (create_appointment w a t)"
  by (simp_all add: create_appointment_eval sheets_absent whatsapp_absent create_document_absent
        split: sum.splits)

lemma sheets_carries: "list_all (carries a) (snd (append_to_google_sheets w a []))"
proof -
  have "runs (carries a) (append_to_google_sheets w a)"
    unfolding append_to_google_sheets_def Let_def by (intro runs_intros; simp)
  then show ?thesis
    by (rule runs_events)
qed

lemma whatsapp_carries: "list_all (carries a) (snd (send_whatsapp_notification w a []))"
proof -
  have "runs (carries a) (send_whatsapp_notification w a)"
    unfolding send_whatsapp_notification_def Let_def by (intro runs_intros; simp)
  then show ?thesis
    by (rule runs_events)
qed

text \<open>
  C8. A request whose date is absent is handled by every consumer exactly as the same
  request with the empty string for its date: the spreadsheet adapter, the messaging
  adapter and \<open>create_document\<close> do the same and return the same, and so the handler
  answers the same; likewise for the notes. What the adapters hand on is text and holds
  no rendering of \<open>None\<close>: every row appended is \<open>row\<close> of the request, with the empty
  string in the column of an absent field, every message sent is \<open>body\<close> of the request,
  with the placeholder \<open>-\<close> in the place of an absent field, and the document stored holds
  the empty string there.
\<close>

theorem absent_field_as_empty_string:
  "(date a = None \<longrightarrow>
       append_to_google_sheets w (a\<lparr>date := Some []\<rparr>) = append_to_google_sheets w a
     \<and> send_whatsapp_notification w (a\<lparr>date := Some []\<rparr>) = send_whatsapp_notification w a
     \<and> create_document w c (a\<lparr>date := Some []\<rparr>) = create_document w c a
     \<and> fst (create_appointment w (a\<lparr>date := Some []\<rparr>) t) = fst (create_appointment w a t)
     \<and> row a ! 4 = [] \<and> document a ! 4 = []
     \<and> body a =
          ascii ''New Appointment Request'' @ newline @
          ascii ''Name: '' @ name a @ newline @
          ascii ''Email: '' @ email a @ newline @
          ascii ''Phone: '' @ phone a @ newline @
          ascii ''Department: '' @ department a @ newline @
          ascii ''Date: -'' @ newline @
          ascii ''Notes: '' @ py_or (notes' a) (ascii ''-''))
   \<and> (notes' a = None \<longrightarrow>
       append_to_google_sheets w (a\<lparr>notes' := Some []\<rparr>) = append_to_google_sheets w a
     \<and> send_whatsapp_notification w (a\<lparr>notes' := Some []\<rparr>) = send_whatsapp_notification w a
     \<and> create_document w c (a\<lparr>notes' := Some []\<rparr>) = create_document w c a
     \<and> fst (create_appointment w (a\<lparr>notes' := Some []\<rparr>) t) = fst (create_appointment w a t)
     \<and> row a ! 5 = [] \<and> document a ! 5 = []
     \<and> body a =
          ascii ''New Appointment Request'' @ newline @
          ascii ''Name: '' @ name a @ newline @
          ascii ''Email: '' @ email a @ newline @
          ascii ''Phone: '' @ phone a @ newline @
          ascii ''Department: '' @ department a @ newline @
          ascii ''Date: '' @ py_or (date a) (ascii ''-'') @ newline @
          ascii ''Notes: -'')
   \<and> list_all (carries a) (snd (append_to_google_sheets w a []))
   \<and> list_all (carries a) (snd (send_whatsapp_notification w a []))"
proof -
  have d: "ascii ''Date: -'' = ascii ''Date: '' @ ascii ''-''"
    and n: "ascii ''Notes: -'' = ascii ''Notes: '' @ ascii ''-''"
    by (simp_all add: ascii_append)
  have f: "row a ! 4 = [] \<and> document a ! 4 = []
     \<and> body a =
          ascii ''New Appointment Request'' @ newline @
          ascii ''Name: '' @ name a @ newline @
          ascii ''Email: '' @ email a @ newline @
          ascii ''Phone: '' @ phone a @ newline @
          ascii ''Department: '' @ department a @ newline @
          ascii ''Date: -'' @ newline @
          ascii ''Notes: '' @ py_or (notes' a) (ascii ''-'')" if "date a = None"
    using that by (simp add: row_def document_def body_def py_or_def d)
  have g: "row a ! 5 = [] \<and> document a ! 5 = []
     \<and> body a =
          ascii ''New Appointment Request'' @ newline @
          ascii ''Name: '' @ name a @ newline @
          ascii ''Email: '' @ email a @ newline @
          ascii ''Phone: '' @ phone a @ newline @
          ascii ''Department: '' @ department a @ newline @
          ascii ''Date: '' @ py_or (date a) (ascii ''-'') @ newline @
          ascii ''Notes: -''" if "notes' a = None"
    using that by (simp add: row_def document_def body_def py_or_def n)
  show ?thesis
    using f g sheets_absent [of a w] whatsapp_absent [of a w] create_document_absent [of a w c]
      create_appointment_absent [of a w t] sheets_carries [of a w] whatsapp_carries [of a w]
    by blast
qed

theorem absent_field_as_empty_string_witness:
  "date appt_A = None \<and> notes' appt_A = None
   \<and> append_to_google_sheets world_both (appt_A\<lparr>date := Some []\<rparr>) [] =
       (Inr (Some (ascii ''Sheet1'')),
        [EvCall ''_append_to_google_sheets'', EvImport ''gspread'',
         EvImport ''google.oauth2.service_account'', EvCredentials 1 scopes, EvAuthorize 2,
         EvOpen 3 (ascii ''Clinic''), EvWorksheet 4 (ascii ''Sheet1''),
         EvAppendRow 5 [ascii ''A'', ascii ''a@x.com'', ascii ''1'', ascii ''D'', [], []]])
   \<and> send_whatsapp_notification world_both (appt_A\<lparr>notes' := Some []\<rparr>) [] =
       (Inr (Some (ascii ''SM1'')),
        [EvCall ''_send_whatsapp_notification'', EvImport ''twilio.rest'',
         EvClient (ascii ''AC1'') (ascii ''tok''),
         EvMessagesCreate 7
           (ascii ''New Appointment Request'' @ newline @
            ascii ''Name: A'' @ newline @
            ascii ''Email: a@x.com'' @ newline @
            ascii ''Phone: 1'' @ newline @
            ascii ''Department: D'' @ newline @
            ascii ''Date: -'' @ newline @
            ascii ''Notes: -'')
           (ascii ''whatsapp:+1'') (ascii ''whatsapp:+2'')])
   \<and> create_document world_both (ascii ''appointment'') (appt_A\<lparr>date := Some []\<rparr>)
       = Inr (ascii ''65f0c0ffee'')
   \<and> fst (create_appointment world_both (appt_A\<lparr>date := Some []\<rparr>) []) =
       Inr \<lparr>ok = True, id' = ascii ''65f0c0ffee'', google_sheets = True, whatsapp = True\<rparr>"
proof -
  have h: "date appt_A = None" "notes' appt_A = None"
    by (simp_all add: appt_A_def)
  have r: "row appt_A = [ascii ''A'', ascii ''a@x.com'', ascii ''1'', ascii ''D'', [], []]"
    by (simp add: row_def appt_A_def py_or_def)
  have b: "body appt_A =
            ascii ''New Appointment Request'' @ newline @
            ascii ''Name: A'' @ newline @
            ascii ''Email: a@x.com'' @ newline @
            ascii ''Phone: 1'' @ newline @
            ascii ''Department: D'' @ newline @
            ascii ''Date: -'' @ newline @
            ascii ''Notes: -''"
    by (simp add: body_def appt_A_def py_or_def ascii_def)
  have c: "create_document world_both (ascii ''appointment'') appt_A = Inr (ascii ''65f0c0ffee'')"
    by (simp add: world_defs)
  have s: "fst (append_to_google_sheets world_both appt_A []) = Inr (Some (ascii ''Sheet1''))"
    by (simp add: sheets_run_both)
  have m: "fst (send_whatsapp_notification world_both appt_A []) = Inr (Some (ascii ''SM1''))"
    by (simp add: whatsapp_run_both)
  have e: "fst (create_appointment world_both appt_A []) =
       Inr \<lparr>ok = True, id' = ascii ''65f0c0ffee'', google_sheets = True, whatsapp = True\<rparr>"
    using create_appointment_persisted [OF c s m, of "[]"] by simp
  from absent_field_as_empty_string [of appt_A world_both "ascii ''appointment''" "[]"] h
  have "append_to_google_sheets world_both (appt_A\<lparr>date := Some []\<rparr>)
          = append_to_google_sheets world_both appt_A"
    and "send_whatsapp_notification world_both (appt_A\<lparr>notes' := Some []\<rparr>)
          = send_whatsapp_notification world_both appt_A"
    and "create_document world_both (ascii ''appointment'') (appt_A\<lparr>date := Some []\<rparr>)
          = create_document world_both (ascii ''appointment'') appt_A"
    and "fst (create_appointment world_both (appt_A\<lparr>date := Some []\<rparr>) [])
          = fst (create_appointment world_both appt_A [])"
    by blast+
  then show ?thesis
    using h c e by (simp add: sheets_run_both whatsapp_run_both r b)
qed

section \<open>The diagnostics endpoint\<close>

lemma length_ascii [simp]: "length (ascii s) = length s"
  by (simp add: ascii_def)

lemmas mark_defs = check_mark_def cross_mark_def warning_sign_def

text \<open>
  C9. \<open>GET /test\<close> returns its status object in every state of the database module and
  of the environment, and never raises. Its run imports the database module and, when
  \<open>db\<close> is there, lists the collections; it makes no call that writes. Each failure
  ends as a status string: a missing module, any other failure of the import and a
  failing listing, the last two with the text of the exception cut to fifty characters,
  so that the status never exceeds 75 characters. For \<open>DATABASE_URL\<close> and
  \<open>DATABASE_NAME\<close> the object tells whether the entry is set, by one of two fixed
  strings, and not its value.
\<close>

theorem test_database_degrades:
  "\<exists>r. test_database w t =
         (Inr r,
          t @ (case database_db w of
                 Inr (Some db) \<Rightarrow> [EvImport ''database'', EvListCollectionNames db]
               | _ \<Rightarrow> [EvImport ''database'']))
     \<and> filter mutating (snd (test_database w t)) = filter mutating t
     \<and> database r =
         (case database_db w of
            Inl (ImportError m) \<Rightarrow>
              cross_mark @ ascii '' Database module not found (run enable-database first)''
          | Inl (Exception m) \<Rightarrow> cross_mark @ ascii '' Error: '' @ take 50 m
          | Inr None \<Rightarrow> warning_sign @ ascii ''  Available but not initialized''
          | Inr (Some db) \<Rightarrow>
              (case db_list_collection_names w db of
                 Inl e \<Rightarrow> warning_sign @ ascii ''  Connected but Error: '' @ take 50 (str_exn e)
               | Inr cs \<Rightarrow> check_mark @ ascii '' Connected & Working''))
     \<and> length (database r) \<le> 75
     \<and> database_url r =
         Some (if truthy (environ w ''DATABASE_URL'') then check_mark @ ascii '' Set''
               else cross_mark @ ascii '' Not Set'')
     \<and> database_name r =
         Some (if truthy (environ w ''DATABASE_NAME'') then check_mark @ ascii '' Set''
               else cross_mark @ ascii '' Not Set'')
     \<and> backend r = check_mark @ ascii '' Running''"
proof (cases "database_db w")
  case (Inl e)
  then show ?thesis
    by (cases e)
       (simp_all add: test_database_def test_database_try_def getenv_def mark_defs)
next
  case (Inr d)
  show ?thesis
  proof (cases d)
    case None
    then show ?thesis
      using Inr by (simp add: test_database_def test_database_try_def getenv_def mark_defs)
  next
    case (Some db)
    then show ?thesis
      using Inr
      by (cases "db_list_collection_names w db")
         (simp_all add: test_database_def test_database_try_def getenv_def mark_defs Let_def)
  qed
qed

theorem test_database_degrades_witness:
  "fst (test_database world_db_err []) =
     Inr \<lparr>backend = check_mark @ ascii '' Running'',
          database = warning_sign @ ascii ''  Connected but Error: '' @ replicate 50 120,
          database_url = Some (check_mark @ ascii '' Set''),
          database_name = Some (cross_mark @ ascii '' Not Set''),
          connection_status = ascii ''Connected'',
          collections = []\<rparr>
   \<and> snd (test_database world_db_err []) = [EvImport ''database'', EvListCollectionNames 10]
   \<and> environ world_db_err ''DATABASE_URL'' = Some (ascii ''mongodb://u:secret@h/db'')"
proof -
  have e: "environ world_db_err ''DATABASE_URL'' = Some (ascii ''mongodb://u:secret@h/db'')"
      "environ world_db_err ''DATABASE_NAME'' = None"
    by (simp_all add: world_db_err_def)
  have d: "database_db world_db_err = Inr (Some 10)"
      "db_list_collection_names world_db_err 10 = Inl (Exception (replicate 60 120))"
    by (simp_all add: world_db_err_def world_defs)
  have c: "fst (test_database world_db_err []) =
     Inr \<lparr>backend = check_mark @ ascii '' Running'',
          database = warning_sign @ ascii ''  Connected but Error: '' @ replicate 50 120,
          database_url = Some (check_mark @ ascii '' Set''),
          database_name = Some (cross_mark @ ascii '' Not Set''),
          connection_status = ascii ''Connected'',
          collections = []\<rparr>"
    by (simp add: test_database_def test_database_try_def getenv_def Let_def e d)
  from test_database_degrades [of world_db_err "[]"] c e show ?thesis
    by (auto simp add: d)
qed

section \<open>Flags and tokens\<close>

lemma sheets_run_empty_sid:
  "fst (append_to_google_sheets world_empty_sid appt_A []) = Inr (Some (ascii ''Sheet1''))"
  by (simp add: adapter_defs world_empty_sid_def world_defs)

lemma whatsapp_run_empty_sid:
  "send_whatsapp_notification world_empty_sid appt_A [] =
     (Inr (Some []),
      [EvCall ''_send_whatsapp_notification'', EvImport ''twilio.rest'',
       EvClient (ascii ''AC1'') (ascii ''tok''),
       EvMessagesCreate 7 (body appt_A) (ascii ''whatsapp:+1'') (ascii ''whatsapp:+2'')])"
  by (simp add: adapter_defs world_empty_sid_def world_defs)

text \<open>
  C10. The flags \<open>google_sheets\<close> and \<open>whatsapp\<close> are the truthiness of the token the
  adapter returned: a flag is true iff the token is neither \<open>None\<close> nor the empty string.
  A delivery that succeeds with an empty token is therefore reported as false, and its
  response equals the one of a run whose channel is not configured.
\<close>

theorem flags_are_truthiness:
  assumes "fst (create_appointment w a []) = Inr r"
  shows "\<exists>sheet_ws whatsapp_sid.
           fst (append_to_google_sheets w a []) = Inr sheet_ws
         \<and> fst (send_whatsapp_notification w a []) = Inr whatsapp_sid
         \<and> google_sheets r = truthy sheet_ws
         \<and> whatsapp r = truthy whatsapp_sid
         \<and> (google_sheets r \<longleftrightarrow> sheet_ws \<noteq> None \<and> sheet_ws \<noteq> Some [])
         \<and> (whatsapp r \<longleftrightarrow> whatsapp_sid \<noteq> None \<and> whatsapp_sid \<noteq> Some [])"
proof -
  have t: "truthy x = (x \<noteq> None \<and> x \<noteq> Some [])" for x
    by (cases x) simp_all
  show ?thesis
    using create_appointment_returned [OF assms] by (auto simp add: t)
qed

theorem flags_are_truthiness_witness:
  "fst (create_appointment world_empty_sid appt_A []) =
     Inr \<lparr>ok = True, id' = ascii ''65f0c0ffee'', google_sheets = True, whatsapp = False\<rparr>
   \<and> fst (send_whatsapp_notification world_empty_sid appt_A []) = Inr (Some [])
   \<and> filter whatsapp_event (snd (send_whatsapp_notification world_empty_sid appt_A [])) =
       [EvImport ''twilio.rest'', EvClient (ascii ''AC1'') (ascii ''tok''),
        EvMessagesCreate 7 (body appt_A) (ascii ''whatsapp:+1'') (ascii ''whatsapp:+2'')]
   \<and> fst (create_appointment world_empty_sid appt_A []) =
       fst (create_appointment world_sheets appt_A [])"
proof -
  have h: "create_document world_empty_sid (ascii ''appointment'') appt_A
             = Inr (ascii ''65f0c0ffee'')"
    by (simp add: world_empty_sid_def world_defs)
  have m: "fst (send_whatsapp_notification world_empty_sid appt_A []) = Inr (Some [])"
    by (simp add: whatsapp_run_empty_sid)
  have r: "fst (create_appointment world_empty_sid appt_A []) =
     Inr \<lparr>ok = True, id' = ascii ''65f0c0ffee'', google_sheets = True, whatsapp = False\<rparr>"
    using create_appointment_persisted [OF h sheets_run_empty_sid m, of "[]"] by simp
  have h': "create_document world_sheets (ascii ''appointment'') appt_A
             = Inr (ascii ''65f0c0ffee'')"
    by (simp add: world_defs)
  have s': "fst (append_to_google_sheets world_sheets appt_A []) = Inr (Some (ascii ''Sheet1''))"
    by (simp add: adapter_defs world_defs)
  have m': "fst (send_whatsapp_notification world_sheets appt_A []) = Inr None"
    by (simp add: adapter_defs world_defs)
  have r': "fst (create_appointment world_sheets appt_A []) =
     Inr \<lparr>ok = True, id' = ascii ''65f0c0ffee'', google_sheets = True, whatsapp = False\<rparr>"
    using create_appointment_persisted [OF h' s' m', of "[]"] by simp
  from flags_are_truthiness [OF r] m r r' show ?thesis
    by (simp add: whatsapp_run_empty_sid)
qed

end
